theory Spec2Isabelle
  imports Complex_Main "HOL-Library.Multiset"
begin

section \<open>Python string primitives used by app.py\<close>

text \<open>
  Filenames and file contents are lists of characters. Only the operations that
  \<^verbatim>\<open>app.py\<close> applies to them are modelled: \<^verbatim>\<open>str.rsplit(sep, 1)\<close> for a
  one-character separator, \<^verbatim>\<open>str.lower\<close>, and \<^verbatim>\<open>os.path.join\<close> on a POSIX host.
\<close>

type_synonym bytes = string

text \<open>
  \<open>split_last sep s\<close> finds the last occurrence of \<open>sep\<close> in \<open>s\<close> and returns the text
  before it and the text after it, or \<open>None\<close> when \<open>sep\<close> does not occur.
\<close>

fun split_last :: "char \<Rightarrow> string \<Rightarrow> (string \<times> string) option" where
  "split_last sep [] = None"
| "split_last sep (x # xs) =
     (case split_last sep xs of
        Some (a, b) \<Rightarrow> Some (x # a, b)
      | None \<Rightarrow> if x = sep then Some ([], xs) else None)"

text \<open>
  \<^verbatim>\<open>s.rsplit(sep, 1)\<close>: at most one split, taken from the right. The result has one element
  when the separator is absent and two otherwise.
\<close>

definition rsplit1 :: "char \<Rightarrow> string \<Rightarrow> string list" where
  "rsplit1 sep s = (case split_last sep s of None \<Rightarrow> [s] | Some (a, b) \<Rightarrow> [a, b])"

text \<open>
  \<^verbatim>\<open>str.lower\<close> on one character. The letters \<open>A\<close> to \<open>Z\<close> go to \<open>a\<close> to \<open>z\<close>; every other
  character is left alone. (Outside ASCII Python lowers more characters, but none of them
  lowers to one of the letters \<open>s\<close>, \<open>t\<close>, \<open>e\<close>, \<open>p\<close>, which is all the membership test of
  \<^verbatim>\<open>allowed_file\<close> can see.)
\<close>

definition lower_char :: "char \<Rightarrow> char" where
  "lower_char c =
     (case map_of (zip ''ABCDEFGHIJKLMNOPQRSTUVWXYZ'' ''abcdefghijklmnopqrstuvwxyz'') c of
        Some l \<Rightarrow> l
      | None \<Rightarrow> c)"

definition lower :: "string \<Rightarrow> string" where
  "lower s = map lower_char s"

text \<open>
  \<^verbatim>\<open>os.path.join(a, b)\<close> of \<^verbatim>\<open>posixpath\<close>: an absolute second component replaces the
  first; otherwise the components are joined by one slash.
\<close>

definition os_path_join :: "string \<Rightarrow> string \<Rightarrow> string" where
  "os_path_join a b =
     (if b \<noteq> [] \<and> hd b = CHR ''/'' then b
      else if a = [] \<or> last a = CHR ''/'' then a @ b
      else a @ ''/'' @ b)"

section \<open>Configuration\<close>

definition UPLOAD_FOLDER :: string where
  "UPLOAD_FOLDER = ''uploads''"

definition ALLOWED_EXTENSIONS :: "string set" where
  "ALLOWED_EXTENSIONS = {''stp'', ''step''}"

section \<open>allowed\_file\<close>

definition allowed_file :: "string \<Rightarrow> bool" where
  "allowed_file filename \<longleftrightarrow>
     CHR ''.'' \<in> set filename \<and>
     lower (rsplit1 (CHR ''.'') filename ! 1) \<in> ALLOWED_EXTENSIONS"

section \<open>Exceptions\<close>

text \<open>
  The exceptions that can travel through the handlers, each with the text that \<^verbatim>\<open>str(e)\<close>
  yields. \<open>OSError\<close> stands for the errors of the operating system (file not found,
  permission denied, is a directory, ...). \<open>OverflowError\<close> and \<open>ValueError\<close> are also what
  the conversion of a timestamp raises when the time is out of range. \<open>NotFound\<close> is the
  HTTP exception of the web framework that carries status 404; nothing in \<^verbatim>\<open>app.py\<close>
  raises it.
\<close>

datatype exn =
    OSError string
  | ValueError string
  | ImportError string
  | OverflowError string
  | NotFound

fun str :: "exn \<Rightarrow> string" where
  "str (OSError m) = m"
| "str (ValueError m) = m"
| "str (ImportError m) = m"
| "str (OverflowError m) = m"
| "str NotFound = ''404 Not Found''"

section \<open>The file system\<close>

text \<open>
  The file system is modelled by what the operating system answers at one moment:
  \<^item> \<open>lookup p\<close> is the result of \<^verbatim>\<open>os.stat(p)\<close>: the node at that path, or the message
    of the \<^verbatim>\<open>OSError\<close> raised;
  \<^item> \<open>listing p\<close> is the result of \<^verbatim>\<open>os.listdir(p)\<close>, in enumeration order, or the message of
    the \<^verbatim>\<open>OSError\<close> raised;
  \<^item> \<open>wfault p\<close> is the message of the \<^verbatim>\<open>OSError\<close> that opening \<open>p\<close> for writing raises, if any;
  \<^item> \<open>clock\<close> is the modification time the next write will stamp.
  Nothing ties the answers to one another, so every theorem about an arbitrary \<open>fs\<close> also
  covers unreadable directories, dangling links and the like.
\<close>

datatype node =
    File int bytes
  | Dir int nat

fun st_mtime :: "node \<Rightarrow> int" where
  "st_mtime (File t d) = t"
| "st_mtime (Dir t n) = t"

fun st_size :: "node \<Rightarrow> nat" where
  "st_size (File t d) = length d"
| "st_size (Dir t n) = n"

record fs =
  lookup :: "string \<Rightarrow> string + node"
  listing :: "string \<Rightarrow> string + string list"
  wfault :: "string \<Rightarrow> string option"
  clock :: int

definition os_path_exists :: "fs \<Rightarrow> string \<Rightarrow> bool" where
  "os_path_exists s p = (case lookup s p of Inl m \<Rightarrow> False | Inr n \<Rightarrow> True)"

definition os_path_getmtime :: "fs \<Rightarrow> string \<Rightarrow> exn + int" where
  "os_path_getmtime s p =
     (case lookup s p of Inl m \<Rightarrow> Inl (OSError m) | Inr n \<Rightarrow> Inr (st_mtime n))"

definition os_path_getsize :: "fs \<Rightarrow> string \<Rightarrow> exn + nat" where
  "os_path_getsize s p =
     (case lookup s p of Inl m \<Rightarrow> Inl (OSError m) | Inr n \<Rightarrow> Inr (st_size n))"

definition os_listdir :: "fs \<Rightarrow> string \<Rightarrow> exn + string list" where
  "os_listdir s p = (case listing s p of Inl m \<Rightarrow> Inl (OSError m) | Inr ns \<Rightarrow> Inr ns)"

text \<open>
  \<open>fs_store s p d\<close> is the file system after a regular file with contents \<open>d\<close> has been
  written at \<open>p\<close>: the node is created or replaced, and the name is added to the listing of
  its directory when that listing is readable and does not have it yet.
\<close>

definition add_name :: "string \<Rightarrow> string + string list \<Rightarrow> string + string list" where
  "add_name n l =
     (case l of
        Inl m \<Rightarrow> Inl m
      | Inr ns \<Rightarrow> Inr (if n \<in> set ns then ns else ns @ [n]))"

definition fs_store :: "fs \<Rightarrow> string \<Rightarrow> bytes \<Rightarrow> fs" where
  "fs_store s p d =
     (let parts = rsplit1 (CHR ''/'') p;
          dir = (if length parts = 2 then parts ! 0 else []);
          base = last parts
      in s\<lparr>lookup := (lookup s)(p := Inr (File (clock s) d)),
            listing := (listing s)(dir := add_name base (listing s dir)),
            clock := clock s + 1\<rparr>)"

text \<open>
  \<^verbatim>\<open>file.save(path)\<close> of an uploaded file: opening the path for writing may raise; otherwise
  the bytes are stored.
\<close>

definition file_save :: "fs \<Rightarrow> string \<Rightarrow> bytes \<Rightarrow> exn + fs" where
  "file_save s p d =
     (case wfault s p of Some m \<Rightarrow> Inl (OSError m) | None \<Rightarrow> Inr (fs_store s p d))"

text \<open>
  \<^verbatim>\<open>send_file(path)\<close> of the web framework. The framework resolves the path against the
  root path of the application (the directory of \<^verbatim>\<open>app.py\<close>), not against the working
  directory that \<^verbatim>\<open>file.save\<close>, \<^verbatim>\<open>os.listdir\<close> and \<^verbatim>\<open>os.path.exists\<close> use; an absolute path
  is taken as it is. It then stats and opens the file and streams the contents. A missing
  path raises the operating system's error (not \<open>NotFound\<close>, which only
  \<^verbatim>\<open>send_from_directory\<close> raises); a directory cannot be opened for reading.
\<close>

definition send_file :: "string \<Rightarrow> fs \<Rightarrow> string \<Rightarrow> exn + bytes" where
  "send_file root_path s p =
     (let path = os_path_join root_path p in
      case lookup s path of
        Inl m \<Rightarrow> Inl (OSError m)
      | Inr (Dir t n) \<Rightarrow> Inl (OSError (''[Errno 21] Is a directory: '' @ path))
      | Inr (File t d) \<Rightarrow> Inr d)"

text \<open>
  The status line the framework sends for the outcome of a view function that returns a
  file: 200 for a response, the code of an HTTP exception, and 500 for any other
  exception that leaves the view function.
\<close>

definition http_status :: "exn + 'a \<Rightarrow> nat" where
  "http_status r = (case r of Inr v \<Rightarrow> 200 | Inl NotFound \<Rightarrow> 404 | Inl e \<Rightarrow> 500)"

section \<open>The geometry kernel\<close>

text \<open>
  Lines 8 to 30 try to import the kernel from \<^verbatim>\<open>OCP\<close>, then from \<^verbatim>\<open>OCC.Core\<close>. The outcome
  is one of three: the OCP binding, the OCC binding, or no kernel at all. The kernel is a
  black box; it is a parameter of the model, given by what its calls return.
  \<^item> \<open>ReadFile\<close>: the status of \<^verbatim>\<open>STEPControl_Reader.ReadFile(path)\<close> and the reader's state;
  \<^item> \<open>TransferRoots\<close>, \<open>OneShape\<close>, \<open>IsNull\<close>: the reader's and the shape's methods;
  \<^item> \<open>Perform\<close>: \<^verbatim>\<open>BRepMesh_IncrementalMesh(shape, deflection, flag).Perform()\<close>, which stores
    the triangulation in the shape;
  \<^item> \<open>Write\<close>: \<^verbatim>\<open>StlAPI_Writer.Write(shape, path)\<close> with the given ASCII mode. It reports
    success exactly when it has written the file; a failed write may leave nothing or a
    partial file at the path;
  \<^item> \<open>status_str\<close>: the text of \<^verbatim>\<open>str(status)\<close> under this binding.
\<close>

datatype IFSelect_ReturnStatus =
    IFSelect_RetVoid
  | IFSelect_RetDone
  | IFSelect_RetError
  | IFSelect_RetFail
  | IFSelect_RetStop

datatype write_result =
    Written bytes
  | NotWritten "bytes option"

datatype occ_type = OCP | OCC

record ('r, 's) kernel =
  ReadFile :: "fs \<Rightarrow> string \<Rightarrow> IFSelect_ReturnStatus \<times> 'r"
  TransferRoots :: "'r \<Rightarrow> 'r"
  OneShape :: "'r \<Rightarrow> 's"
  IsNull :: "'s \<Rightarrow> bool"
  Perform :: "'s \<Rightarrow> real \<Rightarrow> bool \<Rightarrow> 's"
  Write :: "bool \<Rightarrow> 's \<Rightarrow> string \<Rightarrow> fs \<Rightarrow> write_result"
  status_str :: "IFSelect_ReturnStatus \<Rightarrow> string"

type_synonym ('r, 's) occ = "(occ_type \<times> ('r, 's) kernel) option"

definition HAS_OCC :: "('r, 's) occ \<Rightarrow> bool" where
  "HAS_OCC b = (b \<noteq> None)"

definition OCC_TYPE :: "('r, 's) occ \<Rightarrow> occ_type option" where
  "OCC_TYPE b = map_option fst b"

section \<open>convert\_stp\_to\_stl\<close>

text \<open>
  The function returns \<open>True\<close> or raises; the file system after the call is returned with
  the outcome, since the kernel's writer may have touched the output path.
\<close>

definition convert_stp_to_stl ::
  "('r, 's) occ \<Rightarrow> fs \<Rightarrow> string \<Rightarrow> string \<Rightarrow> fs \<times> (exn + bool)" where
  "convert_stp_to_stl b s stp_path stl_path =
     (case b of
        None \<Rightarrow>
          (s, Inl (ImportError
             ''OCP (cadquery-ocp) or pythonocc-core is required for STP file conversion''))
      | Some (ty, k) \<Rightarrow>
          (case ReadFile k s stp_path of
             (status, reader) \<Rightarrow>
               if status \<noteq> IFSelect_RetDone then
                 (s, Inl (ValueError (''Error reading STEP file. Status: '' @ status_str k status)))
               else
                 let shape = OneShape k (TransferRoots k reader) in
                 if IsNull k shape then (s, Inl (ValueError ''No shape found in STEP file''))
                 else
                   let meshed = Perform k shape (1 / 10) True;
                       ascii_mode = (case ty of OCP \<Rightarrow> False | OCC \<Rightarrow> False)
                   in (case Write k ascii_mode meshed stl_path s of
                         Written d \<Rightarrow> (fs_store s stl_path d, Inr True)
                       | NotWritten None \<Rightarrow> (s, Inl (ValueError ''Failed to write STL file''))
                       | NotWritten (Some d) \<Rightarrow>
                           (fs_store s stl_path d, Inl (ValueError ''Failed to write STL file'')))))"

section \<open>The upload handler\<close>

text \<open>
  The process environment: which kernel binding the imports found, and the sanitiser
  \<^verbatim>\<open>werkzeug.utils.secure_filename\<close>. The sanitiser is a library function; the handler is
  modelled for any function in its place, and \<open>werkzeug_secure_filename\<close> below gives the
  library's behaviour on ASCII names.
\<close>

record ('r, 's) env =
  occ :: "('r, 's) occ"
  secure_filename :: "string \<Rightarrow> string"

text \<open>
  The JSON bodies that \<^verbatim>\<open>upload_file\<close> can return:
  \<^item> \<open>ErrorJson m\<close> is \<^verbatim>\<open>{'error': m}\<close>;
  \<^item> \<open>ConvertedJson r f m\<close> is \<^verbatim>\<open>{'success': True, 'stl_file': r, 'filename': f, 'message': m}\<close>;
  \<^item> \<open>UploadedJson r m\<close> is
    \<^verbatim>\<open>{'success': True, 'stp_file': r, 'message': m, 'needs_conversion': True}\<close>.
\<close>

datatype upload_json =
    ErrorJson string
  | ConvertedJson string string string
  | UploadedJson string string

text \<open>
  The request carries the part \<^verbatim>\<open>request.files['file']\<close> or lacks it; a part has a filename
  and the bytes. The handler returns the file system it leaves, the body and the status.
\<close>

definition upload_file ::
  "('r, 's) env \<Rightarrow> fs \<Rightarrow> (string \<times> bytes) option \<Rightarrow> fs \<times> upload_json \<times> nat" where
  "upload_file ev s req =
     (case req of
        None \<Rightarrow> (s, ErrorJson ''No file provided'', 400)
      | Some (file_filename, file_bytes) \<Rightarrow>
          if file_filename = [] then (s, ErrorJson ''No file selected'', 400)
          else if \<not> allowed_file file_filename then
            (s, ErrorJson ''Invalid file type. Please upload .stp or .step files'', 400)
          else
            let sname = secure_filename ev file_filename;
                stp_path = os_path_join UPLOAD_FOLDER sname
            in (case file_save s stp_path file_bytes of
                  Inl e \<Rightarrow> (s, ErrorJson (''Error processing file: '' @ str e), 500)
                | Inr s1 \<Rightarrow>
                    let stl_filename = rsplit1 (CHR ''.'') sname ! 0 @ ''.stl'';
                        stl_path = os_path_join ''static'' stl_filename
                    in if HAS_OCC (occ ev) then
                         (case convert_stp_to_stl (occ ev) s1 stp_path stl_path of
                            (s2, Inl e) \<Rightarrow>
                              (s2, ErrorJson (''Error processing file: '' @ str e), 500)
                          | (s2, Inr ok) \<Rightarrow>
                              (s2,
                               ConvertedJson (''/static/'' @ stl_filename) sname
                                 ''File uploaded and converted successfully'',
                               200))
                       else
                         (s1,
                          UploadedJson (''/uploads/'' @ sname)
                            (''File uploaded. Note: pythonocc-core not installed. '' @
                             ''Install it for STP conversion.''),
                          200)))"

section \<open>The file-serving handlers\<close>

text \<open>
  Both routes bind \<^verbatim>\<open>filename\<close> to one URL segment and pass the joined path to
  \<^verbatim>\<open>send_file\<close>. Neither has a \<^verbatim>\<open>try\<close> block, so an exception of \<^verbatim>\<open>send_file\<close> leaves the
  view function. The root path of the application is the first argument.
\<close>

definition uploaded_file :: "string \<Rightarrow> fs \<Rightarrow> string \<Rightarrow> exn + bytes" where
  "uploaded_file root_path s filename =
     send_file root_path s (os_path_join UPLOAD_FOLDER filename)"

definition static_file :: "string \<Rightarrow> fs \<Rightarrow> string \<Rightarrow> exn + bytes" where
  "static_file root_path s filename = send_file root_path s (os_path_join ''static'' filename)"

section \<open>The catalogue of recent uploads\<close>

text \<open>
  One dictionary of the list \<^verbatim>\<open>files\<close>. The entry \<^verbatim>\<open>'date'\<close> first holds the modification
  time and is replaced by its ISO text before the response is built, so the type of the
  field is a parameter. The key \<^verbatim>\<open>'size'\<close> is the field \<open>fsize\<close>.
\<close>

record 'd file_info =
  filename :: string
  stl_file :: "string option"
  date :: 'd
  fsize :: nat

text \<open>The body \<^verbatim>\<open>{'files': ...}\<close> or \<^verbatim>\<open>{'error': ..., 'files': []}\<close>, with the status.\<close>

record catalog_response =
  status :: nat
  error :: "string option"
  files :: "string file_info list"

text \<open>
  The loop of lines 150 to 166 over the names that \<^verbatim>\<open>os.listdir\<close> returned; \<open>acc\<close> is the
  list \<^verbatim>\<open>files\<close> built so far. The first call that raises ends the loop.
\<close>

fun scan_uploads :: "fs \<Rightarrow> string list \<Rightarrow> int file_info list \<Rightarrow> exn + int file_info list" where
  "scan_uploads s [] acc = Inr acc"
| "scan_uploads s (name # rest) acc =
     (if allowed_file name then
        let file_path = os_path_join UPLOAD_FOLDER name in
        (case os_path_getmtime s file_path of
           Inl e \<Rightarrow> Inl e
         | Inr mtime \<Rightarrow>
             let stl_filename = rsplit1 (CHR ''.'') name ! 0 @ ''.stl'';
                 stl_path = os_path_join ''static'' stl_filename;
                 stl = (if os_path_exists s stl_path then Some (''/static/'' @ stl_filename)
                        else None)
             in (case os_path_getsize s file_path of
                   Inl e \<Rightarrow> Inl e
                 | Inr sz \<Rightarrow>
                     scan_uploads s rest
                       (acc @ [\<lparr>filename = name, stl_file = stl, date = mtime, fsize = sz\<rparr>])))
      else scan_uploads s rest acc)"

text \<open>
  \<^verbatim>\<open>list.sort(key=..., reverse=True)\<close>: the list is reversed, sorted by a stable ascending
  sort, and reversed again, so entries with equal keys keep their order.
\<close>

definition sort_reverse :: "('a \<Rightarrow> 'k::linorder) \<Rightarrow> 'a list \<Rightarrow> 'a list" where
  "sort_reverse key xs = rev (sort_key key (rev xs))"

definition error_response :: "exn \<Rightarrow> catalog_response" where
  "error_response e = \<lparr>status = 500, error = Some (str e), files = []\<rparr>"

text \<open>
  The loop of lines 173 and 174, which replaces each modification time by its ISO text.
  \<open>isofmt\<close> is \<^verbatim>\<open>datetime.datetime.fromtimestamp(t).isoformat()\<close>: the local-time rendering
  of a timestamp, or the exception raised for a time out of range. The first call that
  raises ends the loop; it is inside the \<^verbatim>\<open>try\<close> block like the scan. Modification times are
  integers here: the handler only compares and renders them.
\<close>

fun isoformat_all ::
  "(int \<Rightarrow> exn + string) \<Rightarrow> int file_info list \<Rightarrow> exn + string file_info list" where
  "isoformat_all isofmt [] = Inr []"
| "isoformat_all isofmt (file_info # rest) =
     (case isofmt (date file_info) of
        Inl e \<Rightarrow> Inl e
      | Inr d \<Rightarrow>
          (case isoformat_all isofmt rest of
             Inl e \<Rightarrow> Inl e
           | Inr shown \<Rightarrow>
               Inr (\<lparr>filename = filename file_info, stl_file = stl_file file_info, date = d,
                     fsize = fsize file_info\<rparr> # shown)))"

definition get_recent_uploads :: "(int \<Rightarrow> exn + string) \<Rightarrow> fs \<Rightarrow> catalog_response" where
  "get_recent_uploads isofmt s =
     (let uploads_dir = UPLOAD_FOLDER in
      if \<not> os_path_exists s uploads_dir then \<lparr>status = 200, error = None, files = []\<rparr>
      else
        (case os_listdir s uploads_dir of
           Inl e \<Rightarrow> error_response e
         | Inr names \<Rightarrow>
             (case scan_uploads s names [] of
                Inl e \<Rightarrow> error_response e
              | Inr found \<Rightarrow>
                  let sorted_files = sort_reverse date found;
                      recent = take 4 sorted_files
                  in (case isoformat_all isofmt recent of
                        Inl e \<Rightarrow> error_response e
                      | Inr shown \<Rightarrow> \<lparr>status = 200, error = None, files = shown\<rparr>))))"

section \<open>The sanitiser of the library, on ASCII names\<close>

text \<open>
  \<^verbatim>\<open>werkzeug.utils.secure_filename\<close> on a POSIX host, for names of ASCII characters:
  characters outside ASCII are dropped, each slash becomes a space, the name is split at
  runs of white space and joined by underscores, every character outside
  \<^verbatim>\<open>[A-Za-z0-9_.-]\<close> is removed, and dots and underscores are stripped from both ends.
  (The library first decomposes accented letters; that step is the identity on ASCII and
  is not modelled.)
\<close>

definition is_space :: "char \<Rightarrow> bool" where
  "is_space c \<longleftrightarrow>
     c \<in> {CHR '' '', CHR 0x09, CHR 0x0A, CHR 0x0B, CHR 0x0C, CHR 0x0D,
          CHR 0x1C, CHR 0x1D, CHR 0x1E, CHR 0x1F}"

text \<open>\<^verbatim>\<open>s.split()\<close>: the maximal runs of characters that are not white space.\<close>

fun split_ws :: "string \<Rightarrow> string \<Rightarrow> string list" where
  "split_ws cur [] = (if cur = [] then [] else [rev cur])"
| "split_ws cur (c # cs) =
     (if is_space c then (if cur = [] then split_ws [] cs else rev cur # split_ws [] cs)
      else split_ws (c # cur) cs)"

fun join :: "string \<Rightarrow> string list \<Rightarrow> string" where
  "join sep [] = []"
| "join sep [w] = w"
| "join sep (w # v # ws) = w @ sep @ join sep (v # ws)"

definition strip_chars :: "string \<Rightarrow> string \<Rightarrow> string" where
  "strip_chars cs s =
     rev (dropWhile (\<lambda>c. c \<in> set cs) (rev (dropWhile (\<lambda>c. c \<in> set cs) s)))"

definition filename_ascii_keep :: "char \<Rightarrow> bool" where
  "filename_ascii_keep c \<longleftrightarrow>
     c \<in> set ''ABCDEFGHIJKLMNOPQRSTUVWXYZabcdefghijklmnopqrstuvwxyz0123456789_.-''"

definition werkzeug_secure_filename :: "string \<Rightarrow> string" where
  "werkzeug_secure_filename fname =
     (let ascii = filter (\<lambda>c. (of_char c :: nat) < 128) fname;
          spaced = map (\<lambda>c. if c = CHR ''/'' then CHR '' '' else c) ascii;
          joined = join ''_'' (split_ws [] spaced)
      in strip_chars ''._'' (filter filename_ascii_keep joined))"

section \<open>Sample environments\<close>

text \<open>
  A kernel whose calls return fixed answers: the read status \<open>st\<close>, a shape that is null
  when \<open>null\<close> holds, and the outcome \<open>w\<close> of the writer. A file system with the two
  directories of the application, both empty and writable. They serve the worked examples.
\<close>

definition sample_kernel ::
  "IFSelect_ReturnStatus \<Rightarrow> bool \<Rightarrow> write_result \<Rightarrow> (unit, bool) kernel" where
  "sample_kernel st null w =
     \<lparr>ReadFile = (\<lambda>s p. (st, ())),
      TransferRoots = (\<lambda>r. r),
      OneShape = (\<lambda>r. null),
      IsNull = (\<lambda>x. x),
      Perform = (\<lambda>x d f. x),
      Write = (\<lambda>a x p s. w),
      status_str = (\<lambda>c. ''IFSelect_ReturnStatus'')\<rparr>"

definition sample_env :: "(unit, bool) occ \<Rightarrow> (unit, bool) env" where
  "sample_env b = \<lparr>occ = b, secure_filename = werkzeug_secure_filename\<rparr>"

definition no_such_file :: "string \<Rightarrow> string + 'b" where
  "no_such_file p = Inl (''[Errno 2] No such file or directory: '' @ p)"

definition sample_fs :: fs where
  "sample_fs =
     \<lparr>lookup = (no_such_file(''uploads'' := Inr (Dir 0 4096), ''static'' := Inr (Dir 0 4096))),
      listing = (no_such_file(''uploads'' := Inr [], ''static'' := Inr [])),
      wfault = (\<lambda>p. None),
      clock = 1\<rparr>"

text \<open>
  A rendering of timestamps for the worked examples: it shows no digits, and it raises
  for a time before the year 1 or after the year 9999, as the library does.
\<close>

definition sample_iso :: "int \<Rightarrow> exn + string" where
  "sample_iso t =
     (if - 62135596800 \<le> t \<and> t < 253402300800 then Inr ''T''
      else Inl (ValueError ''year is out of range''))"

text \<open>
  The root path of the sample application, and a file system as a process sees it whose
  working directory is that root: an absolute path below the root names the same node as
  the path relative to it.
\<close>

definition app_root :: string where
  "app_root = ''/srv/app''"

fun strip_prefix :: "string \<Rightarrow> string \<Rightarrow> string option" where
  "strip_prefix [] p = Some p"
| "strip_prefix (c # cs) [] = None"
| "strip_prefix (c # cs) (x # xs) = (if c = x then strip_prefix cs xs else None)"

definition from_cwd :: "string \<Rightarrow> string \<Rightarrow> string" where
  "from_cwd cwd p = (case strip_prefix (cwd @ ''/'') p of Some r \<Rightarrow> r | None \<Rightarrow> p)"

definition rooted :: "string \<Rightarrow> fs \<Rightarrow> fs" where
  "rooted cwd s =
     s\<lparr>lookup := (\<lambda>p. lookup s (from_cwd cwd p)),
       listing := (\<lambda>p. listing s (from_cwd cwd p)),
       wfault := (\<lambda>p. wfault s (from_cwd cwd p))\<rparr>"

text \<open>
  Further file systems for the worked examples:
  \<^item> \<open>busy_fs\<close> has seven names in the uploads directory, six of them with an allowed
    extension, and two meshes in the results area;
  \<^item> \<open>broken_fs\<close> lists a name in the uploads directory that cannot be examined;
  \<^item> \<open>late_fs\<close> holds one upload whose modification time lies beyond the year 9999;
  \<^item> \<open>denied_fs\<close> answers every examination of a path with a permission error;
  \<^item> \<open>dir_fs\<close> holds one upload, and a directory where its mesh would stand.
\<close>

definition busy_fs :: fs where
  "busy_fs =
     \<lparr>lookup = (\<lambda>p.
        case map_of
          [(''uploads'', Dir 0 4096), (''static'', Dir 0 4096),
           (''uploads/a.stp'', File 10 ''A''), (''uploads/notes.txt'', File 60 ''hello''),
           (''uploads/b.step'', File 20 ''BB''), (''uploads/c.STP'', File 30 ''CCC''),
           (''uploads/d.stp'', File 40 ''DDDD''), (''uploads/e.step'', File 50 ''EEEEE''),
           (''uploads/f.stp'', File 20 ''F''),
           (''static/a.stl'', File 11 ''a''), (''static/e.stl'', File 51 ''e'')] p
        of Some n \<Rightarrow> Inr n | None \<Rightarrow> no_such_file p),
      listing = (\<lambda>p.
        case map_of
          [(''uploads'',
            [''a.stp'', ''notes.txt'', ''b.step'', ''c.STP'', ''d.stp'', ''e.step'', ''f.stp'']),
           (''static'', [''a.stl'', ''e.stl''])] p
        of Some ns \<Rightarrow> Inr ns | None \<Rightarrow> no_such_file p),
      wfault = (\<lambda>p. None),
      clock = 61\<rparr>"

definition broken_fs :: fs where
  "broken_fs =
     \<lparr>lookup = (no_such_file(''uploads'' := Inr (Dir 0 4096), ''static'' := Inr (Dir 0 4096),
                  ''uploads/a.stp'' := Inr (File 10 ''A''))),
      listing = (no_such_file(''uploads'' := Inr [''a.stp'', ''gone.step''], ''static'' := Inr [])),
      wfault = (\<lambda>p. None),
      clock = 11\<rparr>"

definition late_fs :: fs where
  "late_fs =
     \<lparr>lookup = (no_such_file(''uploads'' := Inr (Dir 0 4096), ''static'' := Inr (Dir 0 4096),
                  ''uploads/a.stp'' := Inr (File 1000000000000 ''A''))),
      listing = (no_such_file(''uploads'' := Inr [''a.stp''], ''static'' := Inr [])),
      wfault = (\<lambda>p. None),
      clock = 11\<rparr>"

definition denied_fs :: fs where
  "denied_fs =
     \<lparr>lookup = (\<lambda>p. Inl (''[Errno 13] Permission denied: '' @ p)),
      listing = (\<lambda>p. Inl (''[Errno 13] Permission denied: '' @ p)),
      wfault = (\<lambda>p. Some (''[Errno 13] Permission denied: '' @ p)),
      clock = 1\<rparr>"

definition dir_fs :: fs where
  "dir_fs =
     \<lparr>lookup = (no_such_file(''uploads'' := Inr (Dir 0 4096), ''static'' := Inr (Dir 0 4096),
                  ''uploads/z.stp'' := Inr (File 10 ''Z''),
                  ''static/z.stl'' := Inr (Dir 5 4096))),
      listing = (no_such_file(''uploads'' := Inr [''z.stp''], ''static'' := Inr [''z.stl''])),
      wfault = (\<lambda>p. None),
      clock = 11\<rparr>"

section \<open>The notions of the specification\<close>

text \<open>
  The stem of a filename is the name without its last extension: the text before the last
  dot, or the whole name when it has no dot. The extension is the text after the last dot;
  a name without a dot has none. An extension is allowed when its lower-case form is one
  of the allowed extensions.
\<close>

definition spec_stem :: "string \<Rightarrow> string" where
  "spec_stem s =
     (if CHR ''.'' \<in> set s then rev (tl (dropWhile (\<lambda>c. c \<noteq> CHR ''.'') (rev s))) else s)"

definition spec_extension :: "string \<Rightarrow> string option" where
  "spec_extension s =
     (if CHR ''.'' \<in> set s then Some (rev (takeWhile (\<lambda>c. c \<noteq> CHR ''.'') (rev s)))
      else None)"

definition spec_allowed_extension :: "string \<Rightarrow> bool" where
  "spec_allowed_extension s =
     (case spec_extension s of None \<Rightarrow> False | Some e \<Rightarrow> lower e \<in> ALLOWED_EXTENSIONS)"

text \<open>A list of entries is newest first when the modification times never increase.\<close>

definition newest_first :: "int file_info list \<Rightarrow> bool" where
  "newest_first es = sorted_wrt (\<lambda>a b. date b \<le> date a) es"

text \<open>
  A call of the scan raises an error of the operating system when the uploads directory
  is reported to exist and either \<^verbatim>\<open>os.listdir\<close> raises on it or \<^verbatim>\<open>os.path.getmtime\<close> raises on
  one of the listed names with an allowed extension. (These are the calls of the scan
  that can raise; \<^verbatim>\<open>os.path.exists\<close> answers \<open>False\<close> where the examination of the path
  fails.)
\<close>

definition scan_raises :: "fs \<Rightarrow> bool" where
  "scan_raises s \<longleftrightarrow>
     os_path_exists s UPLOAD_FOLDER \<and>
     (case listing s UPLOAD_FOLDER of
        Inl m \<Rightarrow> True
      | Inr names \<Rightarrow>
          \<exists>n \<in> set names. allowed_file n \<and> \<not> os_path_exists s (os_path_join UPLOAD_FOLDER n))"

text \<open>
  A catalogue entry agrees with the file system when its name has an allowed extension,
  its date and size are those of the uploaded file, and its mesh reference is present
  exactly when the file named by the stem and the mesh extension exists in the results
  area.
\<close>

text \<open>
  A shown entry renders a found entry when it has the same name, mesh reference and size
  and its date is the ISO text of the found entry's modification time.
\<close>

definition rendered :: "(int \<Rightarrow> exn + string) \<Rightarrow> int file_info \<Rightarrow> string file_info \<Rightarrow> bool" where
  "rendered isofmt e f \<longleftrightarrow>
     filename f = filename e \<and> stl_file f = stl_file e \<and> fsize f = fsize e \<and>
     isofmt (date e) = Inr (date f)"

definition entry_ok :: "fs \<Rightarrow> int file_info \<Rightarrow> bool" where
  "entry_ok s e \<longleftrightarrow>
     allowed_file (filename e) \<and>
     os_path_getmtime s (os_path_join UPLOAD_FOLDER (filename e)) = Inr (date e) \<and>
     os_path_getsize s (os_path_join UPLOAD_FOLDER (filename e)) = Inr (fsize e) \<and>
     stl_file e =
       (if os_path_exists s (os_path_join ''static'' (spec_stem (filename e) @ ''.stl''))
        then Some (''/static/'' @ spec_stem (filename e) @ ''.stl'') else None)"


section \<open>Splitting at the last separator\<close>

lemma split_last_None: "split_last c s = None \<longleftrightarrow> c \<notin> set s"
  by (induction s) (auto split: option.splits)

lemma split_last_Some: "split_last c s = Some (a, b) \<longleftrightarrow> s = a @ c # b \<and> c \<notin> set b"
proof (induction s arbitrary: a b)
  case Nil
  then show ?case by simp
next
  case (Cons x xs)
  show ?case
  proof (cases "split_last c xs")
    case None
    then have "c \<notin> set xs" by (simp add: split_last_None)
    with None show ?thesis
      by (cases a) (auto simp: Cons_eq_append_conv)
  next
    case (Some ab)
    obtain a' b' where ab: "ab = (a', b')" by (cases ab)
    from Some ab Cons.IH have xs: "xs = a' @ c # b'" "c \<notin> set b'" by auto
    show ?thesis
    proof
      assume "split_last c (x # xs) = Some (a, b)"
      with Some ab have "a = x # a'" "b = b'" by auto
      with xs show "x # xs = a @ c # b \<and> c \<notin> set b" by simp
    next
      assume h: "x # xs = a @ c # b \<and> c \<notin> set b"
      show "split_last c (x # xs) = Some (a, b)"
      proof (cases a)
        case Nil
        with h have "xs = b" "c \<notin> set xs" by auto
        with xs show ?thesis by auto
      next
        case (Cons y ys)
        with h have "xs = ys @ c # b" "c \<notin> set b" "x = y" by auto
        with Cons.IH[of ys b] have "split_last c xs = Some (ys, b)" by simp
        with Cons \<open>x = y\<close> show ?thesis by simp
      qed
    qed
  qed
qed

lemma rsplit1_sep:
  assumes "c \<notin> set b"
  shows "rsplit1 c (a @ c # b) = [a, b]"
proof -
  from assms have "split_last c (a @ c # b) = Some (a, b)"
    by (subst split_last_Some) simp
  then show ?thesis by (simp add: rsplit1_def)
qed

lemma rsplit1_no_sep:
  assumes "c \<notin> set s"
  shows "rsplit1 c s = [s]"
proof -
  from assms have "split_last c s = None" by (simp add: split_last_None)
  then show ?thesis by (simp add: rsplit1_def)
qed

lemma last_sep_decomp:
  assumes "(c::char) \<in> set s"
  shows "\<exists>a b. s = a @ c # b \<and> c \<notin> set b"
proof (cases "split_last c s")
  case None
  with assms show ?thesis by (simp add: split_last_None)
next
  case (Some ab)
  then obtain a b where "split_last c s = Some (a, b)" by (cases ab) simp
  then have "s = a @ c # b \<and> c \<notin> set b" by (rule iffD1 [OF split_last_Some])
  then show ?thesis by blast
qed

lemma spec_stem_dot:
  assumes "CHR ''.'' \<notin> set b"
  shows "spec_stem (a @ CHR ''.'' # b) = a"
proof -
  have "dropWhile (\<lambda>c. c \<noteq> CHR ''.'') (rev b @ CHR ''.'' # rev a) = CHR ''.'' # rev a"
    using assms by (subst dropWhile_append2) auto
  then show ?thesis by (simp add: spec_stem_def)
qed

lemma spec_extension_dot:
  assumes "CHR ''.'' \<notin> set b"
  shows "spec_extension (a @ CHR ''.'' # b) = Some b"
proof -
  have "takeWhile (\<lambda>c. c \<noteq> CHR ''.'') (rev b @ CHR ''.'' # rev a) = rev b"
    using assms by (subst takeWhile_append2) auto
  then show ?thesis by (simp add: spec_extension_def)
qed

lemma rsplit1_head_stem: "rsplit1 (CHR ''.'') s ! 0 = spec_stem s"
proof (cases "CHR ''.'' \<in> set s")
  case True
  then obtain a b where "s = a @ CHR ''.'' # b" "CHR ''.'' \<notin> set b"
    using last_sep_decomp by blast
  then show ?thesis by (simp add: rsplit1_sep spec_stem_dot)
next
  case False
  then show ?thesis by (simp add: rsplit1_no_sep spec_stem_def)
qed

lemma allowed_file_spec: "allowed_file s \<longleftrightarrow> spec_allowed_extension s"
proof (cases "CHR ''.'' \<in> set s")
  case True
  then obtain a b where "s = a @ CHR ''.'' # b" "CHR ''.'' \<notin> set b"
    using last_sep_decomp by blast
  then show ?thesis
    by (simp add: allowed_file_def spec_allowed_extension_def rsplit1_sep spec_extension_dot)
next
  case False
  then show ?thesis
    by (simp add: allowed_file_def spec_allowed_extension_def spec_extension_def)
qed

lemma os_path_join_plain:
  assumes "CHR ''/'' \<notin> set b" and "a \<noteq> []" and "last a \<noteq> CHR ''/''"
  shows "os_path_join a b = a @ ''/'' @ b"
  using assms by (cases b) (auto simp: os_path_join_def)


section \<open>Sample evaluations\<close>

lemma sample_names:
  "werkzeug_secure_filename ''.stp'' = ''stp''"
  "werkzeug_secure_filename ''Part.STP'' = ''Part.STP''"
  "werkzeug_secure_filename ''cube.step'' = ''cube.step''"
  by (simp_all add: werkzeug_secure_filename_def is_space_def strip_chars_def
      filename_ascii_keep_def)

lemma sample_allowed:
  "allowed_file ''.stp''"
  "\<not> allowed_file ''stp''"
  "allowed_file ''Part.STP''"
  "allowed_file ''cube.step''"
  "\<not> allowed_file ''notes.txt''"
  "\<not> allowed_file ''''"
  by (simp_all add: allowed_file_def rsplit1_def lower_def lower_char_def
      ALLOWED_EXTENSIONS_def)

lemma sample_paths:
  "os_path_join UPLOAD_FOLDER ''stp'' = ''uploads/stp''"
  "os_path_join UPLOAD_FOLDER ''Part.STP'' = ''uploads/Part.STP''"
  "os_path_join UPLOAD_FOLDER ''cube.step'' = ''uploads/cube.step''"
  "os_path_join UPLOAD_FOLDER ''missing.stp'' = ''uploads/missing.stp''"
  "os_path_join ''static'' ''missing.stl'' = ''static/missing.stl''"
  "os_path_join ''static'' ''Part.stl'' = ''static/Part.stl''"
  "os_path_join ''static'' ''cube.stl'' = ''static/cube.stl''"
  by (simp_all add: os_path_join_def UPLOAD_FOLDER_def)


section \<open>Intake validation\<close>

text \<open>
  C2, as amended. For every non-empty filename whose extension (the text after the last
  dot, compared without regard to case) is not one of stp and step, and for every
  non-empty filename without a dot, the upload handler answers 400 with the
  invalid-file-type error and leaves the file system as it was. (The empty filename is
  rejected earlier, with the error of a missing selection.)
\<close>

theorem upload_rejects_invalid_extension:
  assumes "file_filename \<noteq> []" and "\<not> spec_allowed_extension file_filename"
  shows "upload_file ev s (Some (file_filename, file_bytes)) =
           (s, ErrorJson ''Invalid file type. Please upload .stp or .step files'', 400)"
  using assms by (simp add: upload_file_def allowed_file_spec)

theorem upload_rejects_invalid_extension_witness:
  "''notes.txt'' \<noteq> [] \<and> \<not> spec_allowed_extension ''notes.txt'' \<and>
   upload_file (sample_env None) sample_fs (Some (''notes.txt'', ''hello'')) =
     (sample_fs, ErrorJson ''Invalid file type. Please upload .stp or .step files'', 400)"
proof -
  have n: "''notes.txt'' \<noteq> []" by simp
  have x: "\<not> spec_allowed_extension ''notes.txt''"
    using sample_allowed(5) allowed_file_spec by blast
  from n x upload_rejects_invalid_extension [OF n x, of "sample_env None" sample_fs "''hello''"]
  show ?thesis by simp
qed

text \<open>
  The empty filename has no dot, so its extension is outside the allow-set, yet the
  handler answers it with the error of a missing selection, not with the
  invalid-file-type error.
\<close>

theorem upload_empty_filename_counterexample:
  "\<not> spec_allowed_extension [] \<and>
   upload_file (sample_env None) sample_fs (Some ([], ''hello'')) =
     (sample_fs, ErrorJson ''No file selected'', 400) \<and>
   snd (upload_file (sample_env None) sample_fs (Some ([], ''hello''))) \<noteq>
     (ErrorJson ''Invalid file type. Please upload .stp or .step files'', 400)"
  by (simp add: upload_file_def spec_allowed_extension_def spec_extension_def)


section \<open>The scan of the uploads directory\<close>

lemma stat_ok:
  assumes "lookup s p = Inr n"
  shows "os_path_exists s p" and "os_path_getmtime s p = Inr (st_mtime n)"
    and "os_path_getsize s p = Inr (st_size n)"
  using assms by (simp_all add: os_path_exists_def os_path_getmtime_def os_path_getsize_def)

lemma stat_fails:
  assumes "lookup s p = Inl m"
  shows "\<not> os_path_exists s p" and "os_path_getmtime s p = Inl (OSError m)"
    and "os_path_getsize s p = Inl (OSError m)"
  using assms by (simp_all add: os_path_exists_def os_path_getmtime_def os_path_getsize_def)

lemma scan_uploads_step_ok:
  assumes "allowed_file name" and "lookup s (os_path_join UPLOAD_FOLDER name) = Inr n"
  shows "scan_uploads s (name # rest) acc =
           scan_uploads s rest
             (acc @ [\<lparr>filename = name,
                      stl_file =
                        (if os_path_exists s (os_path_join ''static'' (spec_stem name @ ''.stl''))
                         then Some (''/static/'' @ spec_stem name @ ''.stl'') else None),
                      date = st_mtime n, fsize = st_size n\<rparr>])"
  using assms by (simp add: stat_ok rsplit1_head_stem)

lemma scan_uploads_step_fail:
  assumes "allowed_file name" and "lookup s (os_path_join UPLOAD_FOLDER name) = Inl m"
  shows "scan_uploads s (name # rest) acc = Inl (OSError m)"
  using assms by (simp add: stat_fails)

lemma scan_uploads_step_skip:
  assumes "\<not> allowed_file name"
  shows "scan_uploads s (name # rest) acc = scan_uploads s rest acc"
  using assms by simp

lemma scan_uploads_Inr:
  assumes "scan_uploads s names acc = Inr found"
  shows "\<exists>new. found = acc @ new \<and> map filename new = filter allowed_file names \<and>
           list_all (entry_ok s) new"
  using assms
proof (induction names arbitrary: acc)
  case Nil
  then show ?case by simp
next
  case (Cons name rest)
  show ?case
  proof (cases "allowed_file name")
    case False
    with Cons.prems have "scan_uploads s rest acc = Inr found"
      by (simp add: scan_uploads_step_skip del: scan_uploads.simps)
    from Cons.IH [OF this] False show ?thesis by simp
  next
    case True
    show ?thesis
    proof (cases "lookup s (os_path_join UPLOAD_FOLDER name)")
      case (Inl m)
      with True Cons.prems show ?thesis by (simp add: scan_uploads_step_fail del: scan_uploads.simps)
    next
      case (Inr n)
      define e where "e = \<lparr>filename = name,
                      stl_file =
                        (if os_path_exists s (os_path_join ''static'' (spec_stem name @ ''.stl''))
                         then Some (''/static/'' @ spec_stem name @ ''.stl'') else None),
                      date = st_mtime n, fsize = st_size n\<rparr>"
      from True Inr Cons.prems have "scan_uploads s rest (acc @ [e]) = Inr found"
        unfolding e_def by (simp add: scan_uploads_step_ok del: scan_uploads.simps)
      from Cons.IH [OF this] obtain new where
        new: "found = (acc @ [e]) @ new" "map filename new = filter allowed_file rest"
          "list_all (entry_ok s) new"
        by blast
      have ok: "entry_ok s e"
        using True Inr by (simp add: entry_ok_def e_def stat_ok)
      have fe: "filename e = name" by (simp add: e_def)
      from new ok fe True
      have "found = acc @ (e # new) \<and> map filename (e # new) = filter allowed_file (name # rest)
              \<and> list_all (entry_ok s) (e # new)"
        by simp
      then show ?thesis by blast
    qed
  qed
qed

lemma scan_uploads_fault:
  assumes "n \<in> set names" and "allowed_file n"
    and "\<not> os_path_exists s (os_path_join UPLOAD_FOLDER n)"
  shows "\<exists>m. scan_uploads s names acc = Inl (OSError m)"
  using assms
proof (induction names arbitrary: acc)
  case Nil
  then show ?case by simp
next
  case (Cons name rest)
  show ?case
  proof (cases "allowed_file name")
    case False
    with Cons.prems have "n \<in> set rest" by auto
    from Cons.IH [OF this Cons.prems(2,3)] False show ?thesis
      by (simp add: scan_uploads_step_skip del: scan_uploads.simps)
  next
    case True
    show ?thesis
    proof (cases "lookup s (os_path_join UPLOAD_FOLDER name)")
      case (Inl m)
      with True show ?thesis by (simp add: scan_uploads_step_fail del: scan_uploads.simps)
    next
      case (Inr nd)
      then have "os_path_exists s (os_path_join UPLOAD_FOLDER name)" by (rule stat_ok)
      with Cons.prems have "n \<in> set rest" by auto
      from Cons.IH [OF this Cons.prems(2,3)] True Inr show ?thesis
        by (simp add: scan_uploads_step_ok del: scan_uploads.simps)
    qed
  qed
qed

lemma scan_uploads_total:
  assumes "\<And>n. n \<in> set names \<Longrightarrow> allowed_file n \<Longrightarrow>
             os_path_exists s (os_path_join UPLOAD_FOLDER n)"
  shows "\<exists>found. scan_uploads s names acc = Inr found"
  using assms
proof (induction names arbitrary: acc)
  case Nil
  then show ?case by simp
next
  case (Cons name rest)
  have rest: "\<And>acc'. \<exists>found. scan_uploads s rest acc' = Inr found"
    using Cons.IH Cons.prems by simp
  show ?case
  proof (cases "allowed_file name")
    case False
    with rest show ?thesis by (simp add: scan_uploads_step_skip del: scan_uploads.simps)
  next
    case True
    with Cons.prems have "os_path_exists s (os_path_join UPLOAD_FOLDER name)" by simp
    then obtain nd where "lookup s (os_path_join UPLOAD_FOLDER name) = Inr nd"
      by (auto simp: os_path_exists_def split: sum.splits)
    with True rest show ?thesis by (simp add: scan_uploads_step_ok del: scan_uploads.simps)
  qed
qed


section \<open>The catalogue\<close>

lemma isoformat_all_Inr:
  assumes "isoformat_all isofmt es = Inr shown"
  shows "list_all2 (rendered isofmt) es shown"
  using assms
proof (induction es arbitrary: shown)
  case Nil
  then show ?case by simp
next
  case (Cons e es)
  from Cons.prems obtain d where d: "isofmt (date e) = Inr d"
    by (cases "isofmt (date e)") simp_all
  with Cons.prems obtain tl where tl: "isoformat_all isofmt es = Inr tl"
    by (cases "isoformat_all isofmt es") simp_all
  from Cons.prems d tl
  have sh: "shown = \<lparr>filename = filename e, stl_file = stl_file e, date = d, fsize = fsize e\<rparr> # tl"
    by simp
  from Cons.IH [OF tl] d show ?case by (simp add: sh rendered_def)
qed

lemma isoformat_all_total:
  assumes "\<And>e. e \<in> set es \<Longrightarrow> \<exists>d. isofmt (date e) = Inr d"
  shows "\<exists>shown. isoformat_all isofmt es = Inr shown"
  using assms
proof (induction es)
  case Nil
  then show ?case by simp
next
  case (Cons e es)
  from Cons.prems obtain d where d: "isofmt (date e) = Inr d" by auto
  from Cons.IH Cons.prems obtain tl where "isoformat_all isofmt es = Inr tl" by auto
  with d show ?case by simp
qed


lemma list_all2_right_source:
  assumes "list_all2 P xs ys" and "y \<in> set ys"
  shows "\<exists>x \<in> set xs. P x y"
  using assms by (induction rule: list_all2_induct) auto

lemma get_recent_uploads_missing:
  assumes "\<not> os_path_exists s UPLOAD_FOLDER"
  shows "get_recent_uploads isofmt s = \<lparr>status = 200, error = None, files = []\<rparr>"
  using assms by (simp add: get_recent_uploads_def)

lemma get_recent_uploads_unlistable:
  assumes "os_path_exists s UPLOAD_FOLDER" and "listing s UPLOAD_FOLDER = Inl m"
  shows "get_recent_uploads isofmt s = \<lparr>status = 500, error = Some m, files = []\<rparr>"
  using assms by (simp add: get_recent_uploads_def os_listdir_def error_response_def)

lemma get_recent_uploads_scan_fails:
  assumes "os_path_exists s UPLOAD_FOLDER" and "listing s UPLOAD_FOLDER = Inr names"
    and "scan_uploads s names [] = Inl e"
  shows "get_recent_uploads isofmt s = \<lparr>status = 500, error = Some (str e), files = []\<rparr>"
  using assms by (simp add: get_recent_uploads_def os_listdir_def error_response_def)

lemma get_recent_uploads_date_fails:
  assumes "os_path_exists s UPLOAD_FOLDER" and "listing s UPLOAD_FOLDER = Inr names"
    and "scan_uploads s names [] = Inr found"
    and "isoformat_all isofmt (take 4 (sort_reverse date found)) = Inl e"
  shows "get_recent_uploads isofmt s = \<lparr>status = 500, error = Some (str e), files = []\<rparr>"
  using assms by (simp add: get_recent_uploads_def os_listdir_def error_response_def)

lemma get_recent_uploads_shown:
  assumes "os_path_exists s UPLOAD_FOLDER" and "listing s UPLOAD_FOLDER = Inr names"
    and "scan_uploads s names [] = Inr found"
    and "isoformat_all isofmt (take 4 (sort_reverse date found)) = Inr shown"
  shows "get_recent_uploads isofmt s = \<lparr>status = 200, error = None, files = shown\<rparr>"
  using assms by (simp add: get_recent_uploads_def os_listdir_def)

lemma newest_first_sort_reverse: "newest_first (sort_reverse date found)"
proof -
  have "sorted (map date (sort_key date (rev found)))" by (rule sorted_sort_key)
  then have "sorted_wrt (\<lambda>a b. date a \<le> date b) (sort_key date (rev found))"
    by (simp add: sorted_map)
  then show ?thesis by (simp add: newest_first_def sort_reverse_def sorted_wrt_rev)
qed


lemma set_sort_reverse: "set (sort_reverse key xs) = set xs"
  by (simp add: sort_reverse_def)

text \<open>
  Whatever the handler answers, its files render entries that the scan found and that
  agree with the file system.
\<close>

lemma files_sources:
  "\<exists>es. list_all2 (rendered isofmt) es (files (get_recent_uploads isofmt s)) \<and>
        list_all (entry_ok s) es"
proof -
  have empty_case: ?thesis if "files (get_recent_uploads isofmt s) = []"
  proof -
    from that have "list_all2 (rendered isofmt) [] (files (get_recent_uploads isofmt s)) \<and>
        list_all (entry_ok s) []"
      by simp
    then show ?thesis by blast
  qed
  show ?thesis
  proof (cases "os_path_exists s UPLOAD_FOLDER")
    case False
    then show ?thesis by (intro empty_case) (simp add: get_recent_uploads_missing)
  next
    case True
    show ?thesis
    proof (cases "listing s UPLOAD_FOLDER")
      case (Inl m)
      with True show ?thesis by (intro empty_case) (simp add: get_recent_uploads_unlistable)
    next
      case (Inr names)
      show ?thesis
      proof (cases "scan_uploads s names []")
        case (Inl e)
        with True Inr show ?thesis
          by (intro empty_case) (simp add: get_recent_uploads_scan_fails)
      next
        case found: (Inr found)
        let ?top = "take 4 (sort_reverse date found)"
        show ?thesis
        proof (cases "isoformat_all isofmt ?top")
          case (Inl e)
          with True Inr found show ?thesis
            by (intro empty_case) (simp add: get_recent_uploads_date_fails)
        next
          case shown: (Inr shown)
          from scan_uploads_Inr [OF found] have ok: "list_all (entry_ok s) found" by simp
          have "set ?top \<subseteq> set found"
            using set_take_subset [of 4 "sort_reverse date found"]
            by (simp add: set_sort_reverse)
          with ok have 1: "list_all (entry_ok s) ?top" by (auto simp: list_all_iff)
          from True Inr found shown have "files (get_recent_uploads isofmt s) = shown"
            by (simp add: get_recent_uploads_shown)
          with isoformat_all_Inr [OF shown]
          have "list_all2 (rendered isofmt) ?top (files (get_recent_uploads isofmt s))"
            by simp
          with 1 show ?thesis by blast
        qed
      qed
    qed
  qed
qed

lemmas catalog_eval =
  get_recent_uploads_def os_path_exists_def UPLOAD_FOLDER_def os_listdir_def no_such_file_def
  os_path_join_def allowed_file_def rsplit1_def lower_def lower_char_def ALLOWED_EXTENSIONS_def
  os_path_getmtime_def os_path_getsize_def error_response_def sort_reverse_def
  sample_iso_def

lemma busy_fs_catalog:
  "get_recent_uploads sample_iso busy_fs =
     \<lparr>status = 200, error = None,
      files =
        [\<lparr>filename = ''e.step'', stl_file = Some ''/static/e.stl'', date = ''T'', fsize = 5\<rparr>,
         \<lparr>filename = ''d.stp'', stl_file = None, date = ''T'', fsize = 4\<rparr>,
         \<lparr>filename = ''c.STP'', stl_file = None, date = ''T'', fsize = 3\<rparr>,
         \<lparr>filename = ''b.step'', stl_file = None, date = ''T'', fsize = 2\<rparr>]\<rparr>"
  by (simp add: catalog_eval busy_fs_def)

lemma broken_fs_catalog:
  "get_recent_uploads sample_iso broken_fs =
     \<lparr>status = 500,
      error = Some ''[Errno 2] No such file or directory: uploads/gone.step'',
      files = []\<rparr>"
  by (simp add: catalog_eval broken_fs_def)

lemma late_fs_catalog:
  "get_recent_uploads sample_iso late_fs =
     \<lparr>status = 500, error = Some ''year is out of range'', files = []\<rparr>"
  by (simp add: catalog_eval late_fs_def)

lemma denied_fs_catalog:
  "get_recent_uploads sample_iso denied_fs = \<lparr>status = 200, error = None, files = []\<rparr>"
  by (simp add: catalog_eval denied_fs_def)

lemma dir_fs_catalog:
  "get_recent_uploads sample_iso (rooted app_root dir_fs) =
     \<lparr>status = 200, error = None,
      files = [\<lparr>filename = ''z.stp'', stl_file = Some ''/static/z.stl'', date = ''T'',
                fsize = 1\<rparr>]\<rparr>"
  by (simp add: catalog_eval dir_fs_def rooted_def from_cwd_def app_root_def)


text \<open>
  C9, as amended. Every entry of the catalogue has a mesh reference exactly when
  \<^verbatim>\<open>os.path.exists\<close> reports something at the path named by the entry's stem and the
  extension \<open>.stl\<close> in the results area at the time of the scan: the reference is absent
  when nothing is reported there, and a reference that is present is the public path of
  that name. (What is reported may be a regular file or a directory: the scan does not
  tell them apart, so a reference does not promise a mesh that can be served.)
\<close>

theorem catalog_mesh_reference:
  assumes "e \<in> set (files (get_recent_uploads isofmt s))"
  shows "(\<not> os_path_exists s (os_path_join ''static'' (spec_stem (filename e) @ ''.stl''))
            \<longrightarrow> stl_file e = None) \<and>
         (\<forall>r. stl_file e = Some r \<longrightarrow>
            r = ''/static/'' @ spec_stem (filename e) @ ''.stl'' \<and>
            os_path_exists s (os_path_join ''static'' (spec_stem (filename e) @ ''.stl''))) \<and>
         (os_path_exists s (os_path_join ''static'' (spec_stem (filename e) @ ''.stl''))
            \<longrightarrow> stl_file e = Some (''/static/'' @ spec_stem (filename e) @ ''.stl''))"
proof -
  obtain es where r: "list_all2 (rendered isofmt) es (files (get_recent_uploads isofmt s))"
    and ok: "list_all (entry_ok s) es"
    using files_sources by blast
  from list_all2_right_source [OF r assms] obtain e0 where e0: "e0 \<in> set es"
    and e: "rendered isofmt e0 e"
    by blast
  from e0 ok have "entry_ok s e0" by (simp add: list_all_iff)
  moreover from e have "filename e = filename e0" "stl_file e = stl_file e0"
    by (simp_all add: rendered_def)
  ultimately show ?thesis by (simp add: entry_ok_def)
qed

theorem catalog_mesh_reference_witness:
  "\<lparr>filename = ''e.step'', stl_file = Some ''/static/e.stl'', date = ''T'', fsize = 5\<rparr>
     \<in> set (files (get_recent_uploads sample_iso busy_fs)) \<and>
   os_path_exists busy_fs (os_path_join ''static'' (spec_stem ''e.step'' @ ''.stl'')) \<and>
   \<lparr>filename = ''d.stp'', stl_file = None, date = ''T'', fsize = 4\<rparr>
     \<in> set (files (get_recent_uploads sample_iso busy_fs)) \<and>
   \<not> os_path_exists busy_fs (os_path_join ''static'' (spec_stem ''d.stp'' @ ''.stl''))"
proof -
  let ?e = "\<lparr>filename = ''e.step'', stl_file = Some ''/static/e.stl'', date = ''T'', fsize = 5\<rparr>"
  let ?d = "\<lparr>filename = ''d.stp'', stl_file = None :: string option, date = ''T'', fsize = 4\<rparr>"
  have e: "?e \<in> set (files (get_recent_uploads sample_iso busy_fs))"
    by (simp add: busy_fs_catalog)
  have d: "?d \<in> set (files (get_recent_uploads sample_iso busy_fs))"
    by (simp add: busy_fs_catalog)
  from catalog_mesh_reference [OF e] catalog_mesh_reference [OF d] e d
  show ?thesis by auto
qed

text \<open>
  An upload \<open>z.stp\<close> with a directory at \<open>static/z.stl\<close>: the catalogue attaches the
  reference \<open>/static/z.stl\<close> although no derived file exists there, and a request for that
  reference is answered with a server error.
\<close>

theorem directory_mesh_counterexample:
  "get_recent_uploads sample_iso (rooted app_root dir_fs) =
     \<lparr>status = 200, error = None,
      files = [\<lparr>filename = ''z.stp'', stl_file = Some ''/static/z.stl'', date = ''T'',
                fsize = 1\<rparr>]\<rparr> \<and>
   lookup (rooted app_root dir_fs) ''static/z.stl'' = Inr (Dir 5 4096) \<and>
   static_file app_root (rooted app_root dir_fs) ''z.stl'' =
     Inl (OSError ''[Errno 21] Is a directory: /srv/app/static/z.stl'') \<and>
   http_status (static_file app_root (rooted app_root dir_fs) ''z.stl'') = 500"
  by (simp add: dir_fs_catalog)
    (simp add: static_file_def send_file_def os_path_join_def app_root_def rooted_def
      from_cwd_def dir_fs_def http_status_def)

text \<open>
  C8, as amended. When a call of the scan raises an error of the operating system (the
  uploads directory is reported to exist but cannot be listed, or a listed name with an
  allowed extension cannot be examined), the handler returns the status 500 with an error
  message and the empty list of files; the handler is a total function, so in no case
  does an exception leave it. An access error inside \<^verbatim>\<open>os.path.exists\<close> raises nothing and
  is not reported: when the uploads directory cannot be examined the handler answers 200
  with the empty list and no error, and when the path of a mesh cannot be examined the
  entry is returned without a mesh reference.
\<close>

theorem catalog_scan_error:
  "(scan_raises s \<longrightarrow>
      (\<exists>m. get_recent_uploads isofmt s = \<lparr>status = 500, error = Some m, files = []\<rparr>)) \<and>
   (\<forall>m. lookup s UPLOAD_FOLDER = Inl m \<longrightarrow>
      get_recent_uploads isofmt s = \<lparr>status = 200, error = None, files = []\<rparr>) \<and>
   (\<forall>e m. e \<in> set (files (get_recent_uploads isofmt s)) \<and>
      lookup s (os_path_join ''static'' (spec_stem (filename e) @ ''.stl'')) = Inl m \<longrightarrow>
      stl_file e = None)"
proof (intro conjI allI impI)
  assume sr: "scan_raises s"
  then have ex: "os_path_exists s UPLOAD_FOLDER" by (simp add: scan_raises_def)
  show "\<exists>m. get_recent_uploads isofmt s = \<lparr>status = 500, error = Some m, files = []\<rparr>"
  proof (cases "listing s UPLOAD_FOLDER")
    case (Inl m)
    with ex show ?thesis by (simp add: get_recent_uploads_unlistable)
  next
    case (Inr names)
    with sr obtain n where "n \<in> set names" "allowed_file n"
      "\<not> os_path_exists s (os_path_join UPLOAD_FOLDER n)"
      by (auto simp: scan_raises_def)
    from scan_uploads_fault [OF this] obtain m where "scan_uploads s names [] = Inl (OSError m)"
      by blast
    with ex Inr show ?thesis by (simp add: get_recent_uploads_scan_fails)
  qed
next
  fix m
  assume "lookup s UPLOAD_FOLDER = Inl m"
  then have "\<not> os_path_exists s UPLOAD_FOLDER" by (rule stat_fails)
  then show "get_recent_uploads isofmt s = \<lparr>status = 200, error = None, files = []\<rparr>"
    by (rule get_recent_uploads_missing)
next
  fix e m
  assume a: "e \<in> set (files (get_recent_uploads isofmt s)) \<and>
      lookup s (os_path_join ''static'' (spec_stem (filename e) @ ''.stl'')) = Inl m"
  obtain es where r: "list_all2 (rendered isofmt) es (files (get_recent_uploads isofmt s))"
    and ok: "list_all (entry_ok s) es"
    using files_sources by blast
  from a have mem: "e \<in> set (files (get_recent_uploads isofmt s))" by simp
  from list_all2_right_source [OF r mem] obtain e0 where e0: "e0 \<in> set es"
    and e: "rendered isofmt e0 e"
    by blast
  from e0 ok have eo: "entry_ok s e0" by (simp add: list_all_iff)
  from e have same: "filename e = filename e0" "stl_file e = stl_file e0"
    by (simp_all add: rendered_def)
  from a have "\<not> os_path_exists s (os_path_join ''static'' (spec_stem (filename e) @ ''.stl''))"
    using stat_fails(1) by blast
  with eo same show "stl_file e = None" by (simp add: entry_ok_def)
qed

theorem catalog_scan_error_witness:
  "scan_raises broken_fs \<and>
   get_recent_uploads sample_iso broken_fs =
     \<lparr>status = 500,
      error = Some ''[Errno 2] No such file or directory: uploads/gone.step'',
      files = []\<rparr> \<and>
   lookup denied_fs UPLOAD_FOLDER = Inl ''[Errno 13] Permission denied: uploads'' \<and>
   get_recent_uploads sample_iso denied_fs = \<lparr>status = 200, error = None, files = []\<rparr>"
proof -
  have a: "scan_raises broken_fs"
    by (simp add: scan_raises_def broken_fs_def catalog_eval)
  have d: "lookup denied_fs UPLOAD_FOLDER = Inl ''[Errno 13] Permission denied: uploads''"
    by (simp add: denied_fs_def UPLOAD_FOLDER_def)
  from catalog_scan_error [of broken_fs sample_iso] a
  have 1: "\<exists>m. get_recent_uploads sample_iso broken_fs =
      \<lparr>status = 500, error = Some m, files = []\<rparr>"
    by blast
  from catalog_scan_error [of denied_fs sample_iso] d
  have 2: "get_recent_uploads sample_iso denied_fs = \<lparr>status = 200, error = None, files = []\<rparr>"
    by blast
  from 1 2 a d show ?thesis by (simp add: broken_fs_catalog)
qed

text \<open>
  A file system that answers every examination of a path with a permission error: the
  uploads directory cannot be accessed, yet the handler answers 200 with the empty list
  and no error message.
\<close>

theorem swallowed_access_error_counterexample:
  "lookup denied_fs UPLOAD_FOLDER = Inl ''[Errno 13] Permission denied: uploads'' \<and>
   listing denied_fs UPLOAD_FOLDER = Inl ''[Errno 13] Permission denied: uploads'' \<and>
   get_recent_uploads sample_iso denied_fs = \<lparr>status = 200, error = None, files = []\<rparr> \<and>
   status (get_recent_uploads sample_iso denied_fs) \<noteq> 500 \<and>
   error (get_recent_uploads sample_iso denied_fs) = None"
  by (simp add: denied_fs_catalog) (simp add: denied_fs_def UPLOAD_FOLDER_def)







section \<open>The conversion\<close>

lemma convert_unavailable:
  "convert_stp_to_stl None s stp_path stl_path =
     (s, Inl (ImportError
        ''OCP (cadquery-ocp) or pythonocc-core is required for STP file conversion''))"
  by (simp add: convert_stp_to_stl_def)

lemma convert_read_failure:
  assumes "ReadFile k s stp_path = (st, reader)" and "st \<noteq> IFSelect_RetDone"
  shows "convert_stp_to_stl (Some (ty, k)) s stp_path stl_path =
           (s, Inl (ValueError (''Error reading STEP file. Status: '' @ status_str k st)))"
  using assms by (simp add: convert_stp_to_stl_def)

lemma convert_empty_shape:
  assumes "ReadFile k s stp_path = (IFSelect_RetDone, reader)"
    and "IsNull k (OneShape k (TransferRoots k reader))"
  shows "convert_stp_to_stl (Some (ty, k)) s stp_path stl_path =
           (s, Inl (ValueError ''No shape found in STEP file''))"
  using assms by (simp add: convert_stp_to_stl_def)

lemma convert_write:
  assumes "ReadFile k s stp_path = (IFSelect_RetDone, reader)"
    and "\<not> IsNull k (OneShape k (TransferRoots k reader))"
  shows "convert_stp_to_stl (Some (ty, k)) s stp_path stl_path =
           (case Write k False (Perform k (OneShape k (TransferRoots k reader)) (1 / 10) True)
                   stl_path s of
              Written d \<Rightarrow> (fs_store s stl_path d, Inr True)
            | NotWritten None \<Rightarrow> (s, Inl (ValueError ''Failed to write STL file''))
            | NotWritten (Some d) \<Rightarrow>
                (fs_store s stl_path d, Inl (ValueError ''Failed to write STL file'')))"
  using assms by (cases ty) (simp_all add: convert_stp_to_stl_def Let_def)

lemma lookup_fs_store: "lookup (fs_store s p d) p = Inr (File (clock s) d)"
  by (simp add: fs_store_def Let_def)

text \<open>
  C7. With a kernel present, let \<open>st\<close> be the status that the kernel's reader reports for
  the source path, \<open>shape\<close> the composite shape it transfers, and \<open>w\<close> the outcome of the
  kernel's writer on the meshed shape, in binary mode, at the output path. The conversion
  raises the read error exactly when \<open>st\<close> is not the success status; otherwise it raises
  the empty-shape error exactly when \<open>shape\<close> is null; otherwise it raises the write error
  exactly when the writer reports failure; and in the remaining case it returns \<open>True\<close>
  and the derived file stands at the output path with the bytes the writer produced.
\<close>

theorem convert_outcomes:
  assumes "ReadFile k s stp_path = (st, reader)"
    and "shape = OneShape k (TransferRoots k reader)"
    and "w = Write k False (Perform k shape (1 / 10) True) stl_path s"
    and "r = convert_stp_to_stl (Some (ty, k)) s stp_path stl_path"
  shows "(snd r = Inl (ValueError (''Error reading STEP file. Status: '' @ status_str k st))
            \<longleftrightarrow> st \<noteq> IFSelect_RetDone) \<and>
         (snd r = Inl (ValueError ''No shape found in STEP file'')
            \<longleftrightarrow> st = IFSelect_RetDone \<and> IsNull k shape) \<and>
         (snd r = Inl (ValueError ''Failed to write STL file'')
            \<longleftrightarrow> st = IFSelect_RetDone \<and> \<not> IsNull k shape \<and> (\<exists>p. w = NotWritten p)) \<and>
         (\<forall>d. st = IFSelect_RetDone \<and> \<not> IsNull k shape \<and> w = Written d \<longrightarrow>
            r = (fs_store s stl_path d, Inr True) \<and>
            lookup (fst r) stl_path = Inr (File (clock s) d))"
proof (cases "st = IFSelect_RetDone")
  case False
  with assms have "r = (s, Inl (ValueError (''Error reading STEP file. Status: '' @ status_str k st)))"
    by (simp add: convert_read_failure)
  with False show ?thesis by simp
next
  case True
  show ?thesis
  proof (cases "IsNull k shape")
    case null: True
    with True assms have "r = (s, Inl (ValueError ''No shape found in STEP file''))"
      by (simp add: convert_empty_shape)
    with True null show ?thesis by simp
  next
    case nonnull: False
    with True assms have r: "r = (case w of
              Written d \<Rightarrow> (fs_store s stl_path d, Inr True)
            | NotWritten None \<Rightarrow> (s, Inl (ValueError ''Failed to write STL file''))
            | NotWritten (Some d) \<Rightarrow>
                (fs_store s stl_path d, Inl (ValueError ''Failed to write STL file'')))"
      by (simp add: convert_write)
    show ?thesis
    proof (cases w)
      case (Written d)
      with r True nonnull show ?thesis by (simp add: lookup_fs_store)
    next
      case (NotWritten p)
      with r True nonnull show ?thesis by (cases p) simp_all
    qed
  qed
qed

lemma sample_kernel_sel:
  "ReadFile (sample_kernel st n w) s p = (st, ())"
  "TransferRoots (sample_kernel st n w) rd = rd"
  "OneShape (sample_kernel st n w) rd = n"
  "IsNull (sample_kernel st n w) x = x"
  "Perform (sample_kernel st n w) x d f = x"
  "Write (sample_kernel st n w) a x p s = w"
  "status_str (sample_kernel st n w) c = ''IFSelect_ReturnStatus''"
  by (simp_all add: sample_kernel_def)

theorem convert_outcomes_witness:
  "snd (convert_stp_to_stl (Some (OCP, sample_kernel IFSelect_RetFail False (Written ''solid'')))
          sample_fs ''uploads/cube.step'' ''static/cube.stl'') =
     Inl (ValueError ''Error reading STEP file. Status: IFSelect_ReturnStatus'') \<and>
   snd (convert_stp_to_stl (Some (OCC, sample_kernel IFSelect_RetDone True (Written ''solid'')))
          sample_fs ''uploads/cube.step'' ''static/cube.stl'') =
     Inl (ValueError ''No shape found in STEP file'') \<and>
   snd (convert_stp_to_stl (Some (OCP, sample_kernel IFSelect_RetDone False (NotWritten None)))
          sample_fs ''uploads/cube.step'' ''static/cube.stl'') =
     Inl (ValueError ''Failed to write STL file'') \<and>
   convert_stp_to_stl (Some (OCC, sample_kernel IFSelect_RetDone False (Written ''solid'')))
          sample_fs ''uploads/cube.step'' ''static/cube.stl'' =
     (fs_store sample_fs ''static/cube.stl'' ''solid'', Inr True) \<and>
   lookup (fs_store sample_fs ''static/cube.stl'' ''solid'') ''static/cube.stl'' =
     Inr (File 1 ''solid'')"
proof -
  let ?src = "''uploads/cube.step''" and ?dst = "''static/cube.stl''"
  let ?k1 = "sample_kernel IFSelect_RetFail False (Written ''solid'')"
  let ?k2 = "sample_kernel IFSelect_RetDone True (Written ''solid'')"
  let ?k3 = "sample_kernel IFSelect_RetDone False (NotWritten None)"
  let ?k4 = "sample_kernel IFSelect_RetDone False (Written ''solid'')"
  note i1 = convert_outcomes [of ?k1 sample_fs ?src IFSelect_RetFail "()" False "Written ''solid''" ?dst _ OCP,
      OF _ _ _ refl]
  note i2 = convert_outcomes [of ?k2 sample_fs ?src IFSelect_RetDone "()" True "Written ''solid''" ?dst _ OCC,
      OF _ _ _ refl]
  note i3 = convert_outcomes [of ?k3 sample_fs ?src IFSelect_RetDone "()" False "NotWritten None" ?dst _ OCP,
      OF _ _ _ refl]
  note i4 = convert_outcomes [of ?k4 sample_fs ?src IFSelect_RetDone "()" False "Written ''solid''" ?dst _ OCC,
      OF _ _ _ refl]
  have 1: "snd (convert_stp_to_stl (Some (OCP, ?k1)) sample_fs ?src ?dst) =
      Inl (ValueError ''Error reading STEP file. Status: IFSelect_ReturnStatus'')"
    using i1 by (simp add: sample_kernel_sel)
  have 2: "snd (convert_stp_to_stl (Some (OCC, ?k2)) sample_fs ?src ?dst) =
      Inl (ValueError ''No shape found in STEP file'')"
    using i2 by (simp add: sample_kernel_sel)
  have 3: "snd (convert_stp_to_stl (Some (OCP, ?k3)) sample_fs ?src ?dst) =
      Inl (ValueError ''Failed to write STL file'')"
    using i3 by (simp add: sample_kernel_sel)
  have 4: "convert_stp_to_stl (Some (OCC, ?k4)) sample_fs ?src ?dst =
      (fs_store sample_fs ?dst ''solid'', Inr True)"
    using i4 by (simp add: sample_kernel_sel)
  have 5: "lookup (fs_store sample_fs ?dst ''solid'') ?dst = Inr (File 1 ''solid'')"
    by (simp add: lookup_fs_store sample_fs_def)
  from 1 2 3 4 5 show ?thesis by simp
qed


section \<open>The upload handler\<close>

lemma allowed_file_nonempty: "allowed_file f \<Longrightarrow> f \<noteq> []"
  by (auto simp: allowed_file_def)

lemma upload_file_save_fails:
  assumes "allowed_file f"
    and "file_save s (os_path_join UPLOAD_FOLDER (secure_filename ev f)) data = Inl e"
  shows "upload_file ev s (Some (f, data)) =
           (s, ErrorJson (''Error processing file: '' @ str e), 500)"
  using assms allowed_file_nonempty [OF assms(1)] by (simp add: upload_file_def)

lemma upload_file_degraded:
  assumes "allowed_file f"
    and "file_save s (os_path_join UPLOAD_FOLDER (secure_filename ev f)) data = Inr s1"
    and "occ ev = None"
  shows "upload_file ev s (Some (f, data)) =
           (s1,
            UploadedJson (''/uploads/'' @ secure_filename ev f)
              ''File uploaded. Note: pythonocc-core not installed. Install it for STP conversion.'',
            200)"
  using assms allowed_file_nonempty [OF assms(1)] by (simp add: upload_file_def HAS_OCC_def)

lemma upload_file_converts:
  assumes "allowed_file f"
    and "file_save s (os_path_join UPLOAD_FOLDER (secure_filename ev f)) data = Inr s1"
    and "occ ev = Some b"
  shows "upload_file ev s (Some (f, data)) =
           (case convert_stp_to_stl (occ ev) s1
                   (os_path_join UPLOAD_FOLDER (secure_filename ev f))
                   (os_path_join ''static'' (spec_stem (secure_filename ev f) @ ''.stl'')) of
              (s2, Inl e) \<Rightarrow> (s2, ErrorJson (''Error processing file: '' @ str e), 500)
            | (s2, Inr ok) \<Rightarrow>
                (s2,
                 ConvertedJson (''/static/'' @ spec_stem (secure_filename ev f) @ ''.stl'')
                   (secure_filename ev f) ''File uploaded and converted successfully'',
                 200))"
proof -
  obtain s2 res where c: "convert_stp_to_stl (Some b) s1
      (os_path_join UPLOAD_FOLDER (secure_filename ev f))
      (os_path_join ''static'' (spec_stem (secure_filename ev f) @ ''.stl'')) = (s2, res)"
    by (cases "convert_stp_to_stl (Some b) s1
      (os_path_join UPLOAD_FOLDER (secure_filename ev f))
      (os_path_join ''static'' (spec_stem (secure_filename ev f) @ ''.stl''))")
  show ?thesis
    using assms allowed_file_nonempty [OF assms(1)] c
    by (cases res) (simp_all add: upload_file_def HAS_OCC_def rsplit1_head_stem Let_def)
qed

lemma convert_success_file:
  assumes "convert_stp_to_stl b s stp_path stl_path = (s2, Inr ok)"
  shows "\<exists>d. s2 = fs_store s stl_path d"
proof (cases b)
  case None
  with assms show ?thesis by (simp add: convert_unavailable)
next
  case (Some tk)
  obtain ty k where tk: "tk = (ty, k)" by (cases tk)
  obtain st reader where rd: "ReadFile k s stp_path = (st, reader)"
    by (cases "ReadFile k s stp_path")
  show ?thesis
  proof (cases "st = IFSelect_RetDone")
    case False
    with assms Some tk rd show ?thesis by (simp add: convert_read_failure)
  next
    case True
    show ?thesis
    proof (cases "IsNull k (OneShape k (TransferRoots k reader))")
      case null: True
      with assms Some tk rd True show ?thesis by (simp add: convert_empty_shape)
    next
      case False
      with assms Some tk rd True show ?thesis
        by (auto simp: convert_write split: write_result.splits option.splits)
    qed
  qed
qed

lemma convert_failure_file:
  assumes "convert_stp_to_stl b s stp_path stl_path = (s2, Inl e)"
  shows "s2 = s \<or> (e = ValueError ''Failed to write STL file'' \<and> (\<exists>d. s2 = fs_store s stl_path d))"
proof (cases b)
  case None
  with assms show ?thesis by (simp add: convert_unavailable)
next
  case (Some tk)
  obtain ty k where tk: "tk = (ty, k)" by (cases tk)
  obtain st reader where rd: "ReadFile k s stp_path = (st, reader)"
    by (cases "ReadFile k s stp_path")
  show ?thesis
  proof (cases "st = IFSelect_RetDone")
    case False
    with assms Some tk rd show ?thesis by (simp add: convert_read_failure)
  next
    case True
    show ?thesis
    proof (cases "IsNull k (OneShape k (TransferRoots k reader))")
      case null: True
      with assms Some tk rd True show ?thesis by (simp add: convert_empty_shape)
    next
      case False
      with assms Some tk rd True show ?thesis
        by (auto simp: convert_write split: write_result.splits option.splits)
    qed
  qed
qed

lemma sample_env_sel:
  "occ (sample_env b) = b"
  "secure_filename (sample_env b) = werkzeug_secure_filename"
  by (simp_all add: sample_env_def)

lemma sample_fs_save: "file_save sample_fs p d = Inr (fs_store sample_fs p d)"
  by (simp add: file_save_def sample_fs_def)

lemma sample_stems:
  "spec_stem ''Part.STP'' = ''Part''"
  "spec_stem ''cube.step'' = ''cube''"
  "spec_stem ''e.step'' = ''e''"
  "spec_stem ''d.stp'' = ''d''"
  "spec_stem ''stp'' = ''stp''"
  by (simp_all add: spec_stem_def)

lemmas upload_eval =
  upload_file_def sample_allowed sample_env_sel sample_names sample_paths sample_fs_save
  HAS_OCC_def convert_stp_to_stl_def sample_kernel_sel rsplit1_def Let_def

lemma sample_upload_converted:
  "upload_file (sample_env (Some (OCP, sample_kernel IFSelect_RetDone False (Written ''solid''))))
     sample_fs (Some (''Part.STP'', ''data'')) =
     (fs_store (fs_store sample_fs ''uploads/Part.STP'' ''data'') ''static/Part.stl'' ''solid'',
      ConvertedJson ''/static/Part.stl'' ''Part.STP'' ''File uploaded and converted successfully'',
      200)"
  by (simp add: upload_eval)

lemma sample_upload_degraded:
  "upload_file (sample_env None) sample_fs (Some (''cube.step'', ''data'')) =
     (fs_store sample_fs ''uploads/cube.step'' ''data'',
      UploadedJson ''/uploads/cube.step''
        ''File uploaded. Note: pythonocc-core not installed. Install it for STP conversion.'',
      200)"
  by (simp add: upload_eval)

lemma sample_upload_dotfile:
  "upload_file (sample_env None) sample_fs (Some (''.stp'', ''data'')) =
     (fs_store sample_fs ''uploads/stp'' ''data'',
      UploadedJson ''/uploads/stp''
        ''File uploaded. Note: pythonocc-core not installed. Install it for STP conversion.'',
      200)"
  by (simp add: upload_eval)

lemma sample_upload_partial:
  "upload_file
     (sample_env (Some (OCP, sample_kernel IFSelect_RetDone False (NotWritten (Some ''par'')))))
     sample_fs (Some (''cube.step'', ''data'')) =
     (fs_store (fs_store sample_fs ''uploads/cube.step'' ''data'') ''static/cube.stl'' ''par'',
      ErrorJson ''Error processing file: Failed to write STL file'', 500)"
  by (simp add: upload_eval)

lemma sample_store_dotfile:
  "lookup (fs_store sample_fs ''uploads/stp'' ''data'') ''uploads/stp'' = Inr (File 1 ''data'')"
  "listing (fs_store sample_fs ''uploads/stp'' ''data'') ''uploads'' = Inr [''stp'']"
  "get_recent_uploads sample_iso (fs_store sample_fs ''uploads/stp'' ''data'') =
     \<lparr>status = 200, error = None, files = []\<rparr>"
  by (simp_all add: fs_store_def sample_fs_def add_name_def catalog_eval Let_def)

lemma sample_store_partial:
  "lookup (fs_store (fs_store sample_fs ''uploads/cube.step'' ''data'') ''static/cube.stl'' ''par'')
     ''static/cube.stl'' = Inr (File 2 ''par'')"
  "get_recent_uploads sample_iso
     (fs_store (fs_store sample_fs ''uploads/cube.step'' ''data'') ''static/cube.stl'' ''par'') =
     \<lparr>status = 200, error = None,
      files = [\<lparr>filename = ''cube.step'', stl_file = Some ''/static/cube.stl'', date = ''T'',
                fsize = 4\<rparr>]\<rparr>"
  by (simp_all add: fs_store_def sample_fs_def add_name_def catalog_eval Let_def)

text \<open>
  C1. For every submission whose filename passes validation and whose bytes are stored,
  with a kernel present, the conversion is asked to write the file named by the stem of
  the sanitised source name followed by \<open>.stl\<close>, in the results area, and on success the
  handler reports that name under \<open>/static/\<close>. Whenever the handler reports a derived
  mesh, the filename it reports is the sanitised source name, the reference is
  \<open>/static/\<close> followed by that stem and \<open>.stl\<close>, and the file of that name stands in the
  results area. The stem drops the last extension whatever its letters are: a sanitised
  name \<open>base.ext\<close>, with no dot in \<open>ext\<close>, gives \<open>base.stl\<close>.
\<close>

theorem derived_filename_is_stem_stl:
  "(\<forall>s1 b.
      allowed_file file_filename \<and>
      file_save s (os_path_join UPLOAD_FOLDER (secure_filename ev file_filename)) file_bytes
        = Inr s1 \<and>
      occ ev = Some b \<longrightarrow>
      upload_file ev s (Some (file_filename, file_bytes)) =
        (case convert_stp_to_stl (occ ev) s1
                (os_path_join UPLOAD_FOLDER (secure_filename ev file_filename))
                (os_path_join ''static''
                   (spec_stem (secure_filename ev file_filename) @ ''.stl'')) of
           (s2, Inl e) \<Rightarrow> (s2, ErrorJson (''Error processing file: '' @ str e), 500)
         | (s2, Inr ok) \<Rightarrow>
             (s2,
              ConvertedJson
                (''/static/'' @ spec_stem (secure_filename ev file_filename) @ ''.stl'')
                (secure_filename ev file_filename) ''File uploaded and converted successfully'',
              200))) \<and>
   (\<forall>s' ref name msg code.
      upload_file ev s (Some (file_filename, file_bytes)) =
        (s', ConvertedJson ref name msg, code) \<longrightarrow>
      name = secure_filename ev file_filename \<and>
      ref = ''/static/'' @ spec_stem name @ ''.stl'' \<and>
      (\<forall>base ext. name = base @ ''.'' @ ext \<and> CHR ''.'' \<notin> set ext \<longrightarrow>
         ref = ''/static/'' @ base @ ''.stl'') \<and>
      (\<exists>t d. lookup s' (os_path_join ''static'' (spec_stem name @ ''.stl'')) =
         Inr (File t d)))"
proof (intro conjI allI impI)
  fix s1 b
  assume "allowed_file file_filename \<and>
      file_save s (os_path_join UPLOAD_FOLDER (secure_filename ev file_filename)) file_bytes
        = Inr s1 \<and>
      occ ev = Some b"
  then have a: "allowed_file file_filename"
    and b: "file_save s (os_path_join UPLOAD_FOLDER (secure_filename ev file_filename)) file_bytes
        = Inr s1"
    and c: "occ ev = Some b"
    by simp_all
  show "upload_file ev s (Some (file_filename, file_bytes)) =
        (case convert_stp_to_stl (occ ev) s1
                (os_path_join UPLOAD_FOLDER (secure_filename ev file_filename))
                (os_path_join ''static''
                   (spec_stem (secure_filename ev file_filename) @ ''.stl'')) of
           (s2, Inl e) \<Rightarrow> (s2, ErrorJson (''Error processing file: '' @ str e), 500)
         | (s2, Inr ok) \<Rightarrow>
             (s2,
              ConvertedJson
                (''/static/'' @ spec_stem (secure_filename ev file_filename) @ ''.stl'')
                (secure_filename ev file_filename) ''File uploaded and converted successfully'',
              200))"
    by (rule upload_file_converts [OF a b c])
next
  fix s' ref name msg code
  assume up: "upload_file ev s (Some (file_filename, file_bytes)) =
             (s', ConvertedJson ref name msg, code)"
  let ?sname = "secure_filename ev file_filename"
  let ?stp = "os_path_join UPLOAD_FOLDER ?sname"
  let ?stl = "os_path_join ''static'' (spec_stem ?sname @ ''.stl'')"
  from up have ne: "file_filename \<noteq> []"
    by (auto simp: upload_file_def)
  with up have al: "allowed_file file_filename"
    by (auto simp: upload_file_def split: if_splits)
  have all: "name = ?sname \<and> ref = ''/static/'' @ spec_stem ?sname @ ''.stl'' \<and>
      (\<exists>t d. lookup s' ?stl = Inr (File t d))"
  proof (cases "file_save s ?stp file_bytes")
    case (Inl e)
    with up al show ?thesis by (simp add: upload_file_save_fails)
  next
    case (Inr s1)
    show ?thesis
    proof (cases "occ ev")
      case None
      with up al Inr show ?thesis by (simp add: upload_file_degraded)
    next
      case (Some b)
      obtain s2 res where c: "convert_stp_to_stl (occ ev) s1 ?stp ?stl = (s2, res)"
        by (cases "convert_stp_to_stl (occ ev) s1 ?stp ?stl")
      show ?thesis
      proof (cases res)
        case (Inl e)
        with up al Inr Some c show ?thesis by (simp add: upload_file_converts)
      next
        case ok: (Inr ok)
        with up al Inr Some c have eq: "s' = s2" "name = ?sname"
          "ref = ''/static/'' @ spec_stem ?sname @ ''.stl''"
          by (auto simp: upload_file_converts)
        from convert_success_file c ok obtain d where "s2 = fs_store s1 ?stl d" by blast
        then have "lookup s2 ?stl = Inr (File (clock s1) d)" by (simp add: lookup_fs_store)
        with eq show ?thesis by auto
      qed
    qed
  qed
  from all show "name = secure_filename ev file_filename" by simp
  from all show "ref = ''/static/'' @ spec_stem name @ ''.stl''" by simp
  from all show "\<exists>t d. lookup s' (os_path_join ''static'' (spec_stem name @ ''.stl'')) =
      Inr (File t d)" by simp
  fix base ext
  assume be: "name = base @ ''.'' @ ext \<and> CHR ''.'' \<notin> set ext"
  then have n: "name = base @ CHR ''.'' # ext" and d: "CHR ''.'' \<notin> set ext" by simp_all
  from spec_stem_dot [OF d, of base] n have "spec_stem name = base" by simp
  with all show "ref = ''/static/'' @ base @ ''.stl''" by simp
qed

theorem derived_filename_is_stem_stl_witness:
  "allowed_file ''Part.STP'' \<and>
   werkzeug_secure_filename ''Part.STP'' = ''Part.STP'' \<and>
   upload_file (sample_env (Some (OCP, sample_kernel IFSelect_RetDone False (Written ''solid''))))
     sample_fs (Some (''Part.STP'', ''data'')) =
     (fs_store (fs_store sample_fs ''uploads/Part.STP'' ''data'') ''static/Part.stl'' ''solid'',
      ConvertedJson ''/static/Part.stl'' ''Part.STP'' ''File uploaded and converted successfully'',
      200) \<and>
   ''/static/Part.stl'' = ''/static/'' @ spec_stem ''Part.STP'' @ ''.stl'' \<and>
   (\<exists>t d. lookup
      (fs_store (fs_store sample_fs ''uploads/Part.STP'' ''data'') ''static/Part.stl'' ''solid'')
      ''static/Part.stl'' = Inr (File t d))"
proof -
  let ?ev = "sample_env (Some (OCP, sample_kernel IFSelect_RetDone False (Written ''solid'')))"
  note reported = derived_filename_is_stem_stl [of "''Part.STP''" sample_fs ?ev "''data''",
      THEN conjunct2, rule_format, OF sample_upload_converted]
  from reported have 1: "''Part.STP'' = secure_filename ?ev ''Part.STP''" by (rule conjunct1)
  from reported
  have 2: "''/static/Part.stl'' = ''/static/'' @ spec_stem ''Part.STP'' @ ''.stl''"
    by (rule conjunct1 [OF conjunct2])
  from reported
  have 3: "\<exists>t d. lookup
      (fs_store (fs_store sample_fs ''uploads/Part.STP'' ''data'') ''static/Part.stl'' ''solid'')
      (os_path_join ''static'' (spec_stem ''Part.STP'' @ ''.stl'')) = Inr (File t d)"
    by (rule conjunct2 [OF conjunct2 [OF conjunct2]])
  from 1 2 3 sample_upload_converted sample_allowed(3) show ?thesis
    by (simp add: sample_env_sel sample_stems sample_paths sample_names)
qed


lemma upload_path_plain:
  assumes "CHR ''/'' \<notin> set n"
  shows "os_path_join UPLOAD_FOLDER n = ''uploads/'' @ n"
  using os_path_join_plain [OF assms, of "''uploads''"] by (simp add: UPLOAD_FOLDER_def)

lemma upload_path_inj:
  assumes "os_path_join UPLOAD_FOLDER m = os_path_join UPLOAD_FOLDER n" and "CHR ''/'' \<notin> set n"
  shows "m = n"
proof (cases "m \<noteq> [] \<and> hd m = CHR ''/''")
  case True
  then have "os_path_join UPLOAD_FOLDER m = m" by (simp add: os_path_join_def)
  with assms True show ?thesis by (cases m) (simp_all add: upload_path_plain)
next
  case False
  then have "os_path_join UPLOAD_FOLDER m = ''uploads/'' @ m"
    by (auto simp: os_path_join_def UPLOAD_FOLDER_def)
  with assms show ?thesis by (simp add: upload_path_plain)
qed

lemma fs_store_lookup:
  "lookup (fs_store s p d) q = (if q = p then Inr (File (clock s) d) else lookup s q)"
  by (simp add: fs_store_def Let_def)

lemma fs_store_upload_listing:
  assumes "CHR ''/'' \<notin> set n"
  shows "listing (fs_store s (os_path_join UPLOAD_FOLDER n) d) UPLOAD_FOLDER =
           add_name n (listing s UPLOAD_FOLDER)"
proof -
  have r: "rsplit1 (CHR ''/'') (''uploads'' @ CHR ''/'' # n) = [''uploads'', n]"
    using assms by (rule rsplit1_sep)
  from upload_path_plain [OF assms] r show ?thesis
    by (simp add: fs_store_def Let_def UPLOAD_FOLDER_def)
qed

lemma newest_first_head:
  assumes "newest_first (h # t)" and "e \<in> set (h # t)"
  shows "date e \<le> date h"
  using assms by (auto simp: newest_first_def)

text \<open>
  The catalogue after a store into the uploads directory: when the directory can be
  listed, the stored name has an allowed extension, and every other listed upload is
  older than the clock and can be examined and rendered, the stored upload comes first.
\<close>

lemma catalog_after_upload:
  assumes al: "allowed_file n" and ns: "CHR ''/'' \<notin> set n"
    and ex: "os_path_exists s UPLOAD_FOLDER"
    and ls: "listing s UPLOAD_FOLDER = Inr names"
    and old: "\<And>m. m \<in> set names \<Longrightarrow> allowed_file m \<Longrightarrow> m \<noteq> n \<Longrightarrow>
             \<exists>nd y. lookup s (os_path_join UPLOAD_FOLDER m) = Inr nd \<and> st_mtime nd < clock s \<and>
                    isofmt (st_mtime nd) = Inr y"
    and now: "isofmt (clock s) = Inr x"
    and s1: "s1 = fs_store s (os_path_join UPLOAD_FOLDER n) d"
  shows "\<exists>more. get_recent_uploads isofmt s1 =
           \<lparr>status = 200, error = None,
            files =
              \<lparr>filename = n,
               stl_file =
                 (if os_path_exists s1 (os_path_join ''static'' (spec_stem n @ ''.stl''))
                  then Some (''/static/'' @ spec_stem n @ ''.stl'') else None),
               date = x, fsize = length d\<rparr> # more\<rparr>"
proof -
  let ?p = "os_path_join UPLOAD_FOLDER n"
  define names1 where "names1 = (if n \<in> set names then names else names @ [n])"
  have set1: "set names1 = insert n (set names)" by (auto simp: names1_def)
  have ls1: "listing s1 UPLOAD_FOLDER = Inr names1"
    by (simp add: s1 fs_store_upload_listing [OF ns] ls add_name_def names1_def)
  have "?p \<noteq> UPLOAD_FOLDER" using upload_path_plain [OF ns] by (simp add: UPLOAD_FOLDER_def)
  then have "lookup s1 UPLOAD_FOLDER = lookup s UPLOAD_FOLDER"
    by (simp add: s1 fs_store_lookup)
  with ex have ex1: "os_path_exists s1 UPLOAD_FOLDER" by (simp add: os_path_exists_def)
  have new: "lookup s1 ?p = Inr (File (clock s) d)" by (simp add: s1 fs_store_lookup)
  have other: "lookup s1 (os_path_join UPLOAD_FOLDER m) = lookup s (os_path_join UPLOAD_FOLDER m)"
    if "m \<noteq> n" for m
  proof -
    from that have "os_path_join UPLOAD_FOLDER m \<noteq> ?p" using upload_path_inj [OF _ ns] by blast
    then show ?thesis by (simp add: s1 fs_store_lookup)
  qed
  have examinable: "os_path_exists s1 (os_path_join UPLOAD_FOLDER m)"
    if "m \<in> set names1" "allowed_file m" for m
  proof (cases "m = n")
    case True
    with new show ?thesis by (simp add: os_path_exists_def)
  next
    case False
    with that set1 have "m \<in> set names" by simp
    from old [OF this that(2) False] other [OF False] show ?thesis
      by (auto simp: os_path_exists_def)
  qed
  from scan_uploads_total [of names1 s1 "[]"] examinable
  obtain found where found: "scan_uploads s1 names1 [] = Inr found" by blast
  from scan_uploads_Inr [OF found]
  have fnames: "map filename found = filter allowed_file names1"
    and ok: "list_all (entry_ok s1) found"
    by simp_all
  have is_new: "date e = clock s \<and> fsize e = length d \<and>
      stl_file e = (if os_path_exists s1 (os_path_join ''static'' (spec_stem n @ ''.stl''))
                    then Some (''/static/'' @ spec_stem n @ ''.stl'') else None)"
    if "e \<in> set found" "filename e = n" for e
  proof -
    from that ok have "entry_ok s1 e" by (simp add: list_all_iff)
    with that(2) new show ?thesis
      by (simp add: entry_ok_def os_path_getmtime_def os_path_getsize_def)
  qed
  have is_old: "date e < clock s \<and> (\<exists>y. isofmt (date e) = Inr y)"
    if "e \<in> set found" "filename e \<noteq> n" for e
  proof -
    from that ok have eo: "entry_ok s1 e" by (simp add: list_all_iff)
    from that(1) have "filename e \<in> set (map filename found)" by simp
    with fnames have "filename e \<in> set names1" "allowed_file (filename e)" by simp_all
    with set1 that(2) have "filename e \<in> set names" by simp
    from old [OF this \<open>allowed_file (filename e)\<close> that(2)] obtain nd y where
      "lookup s (os_path_join UPLOAD_FOLDER (filename e)) = Inr nd"
      "st_mtime nd < clock s" "isofmt (st_mtime nd) = Inr y"
      by blast
    with other [OF that(2)] eo show ?thesis
      by (auto simp: entry_ok_def os_path_getmtime_def)
  qed
  have shows_all: "\<exists>y. isofmt (date e) = Inr y" if "e \<in> set found" for e
    using is_new [OF that] is_old [OF that] now by (cases "filename e = n") auto
  from al set1 have "n \<in> set (filter allowed_file names1)" by simp
  with fnames have "n \<in> set (map filename found)" by simp
  then obtain e_new where e_new: "e_new \<in> set found" "filename e_new = n" by auto
  define l where "l = sort_reverse date found"
  have setl: "set l = set found" by (simp add: l_def set_sort_reverse)
  have nf: "newest_first l" by (simp add: l_def newest_first_sort_reverse)
  from e_new setl obtain h t where l: "l = h # t" by (cases l) auto
  with setl have h: "h \<in> set found" by auto
  have hn: "filename h = n"
  proof (rule ccontr)
    assume "filename h \<noteq> n"
    from is_old [OF h this] have "date h < clock s" by simp
    moreover from e_new setl l have "e_new \<in> set (h # t)" by simp
    with nf l have "date e_new \<le> date h" using newest_first_head by blast
    moreover from is_new [OF e_new] have "date e_new = clock s" by simp
    ultimately show False by simp
  qed
  have top: "take 4 l = h # take 3 t" by (simp add: l)
  have rall: "\<And>e. e \<in> set (take 4 l) \<Longrightarrow> \<exists>y. isofmt (date e) = Inr y"
    using shows_all setl set_take_subset [of 4 l] by blast
  from isoformat_all_total [of "take 4 l" isofmt] rall obtain shown where
    shown: "isoformat_all isofmt (take 4 l) = Inr shown" by blast
  from is_new [OF h hn] now have dh: "isofmt (date h) = Inr x" by simp
  from shown top dh obtain more where
    "shown = \<lparr>filename = filename h, stl_file = stl_file h, date = x, fsize = fsize h\<rparr> # more"
    by (cases "isoformat_all isofmt (take 3 t)") auto
  with is_new [OF h hn] hn
  have sh: "shown =
      \<lparr>filename = n,
       stl_file = (if os_path_exists s1 (os_path_join ''static'' (spec_stem n @ ''.stl''))
                   then Some (''/static/'' @ spec_stem n @ ''.stl'') else None),
       date = x, fsize = length d\<rparr> # more"
    by simp
  from get_recent_uploads_shown [OF ex1 ls1 found, of isofmt shown] shown
  have "get_recent_uploads isofmt s1 = \<lparr>status = 200, error = None, files = shown\<rparr>"
    by (simp add: l_def)
  with sh show ?thesis by blast
qed


text \<open>
  C4. With no kernel, an upload whose filename passes validation and whose bytes the
  uploads area accepts is answered with status 200 and the body that refers to the raw
  upload and carries the needs-conversion flag, and the raw file is stored under the
  sanitised name. The catalogue goes on working on the file system the upload leaves:
  when the uploads directory can be listed, the sanitised name is one segment with an
  allowed extension, and every other listed upload is older than the new one and can be
  examined and rendered, the catalogue answers 200 with the new upload first.
\<close>

theorem degraded_upload_succeeds:
  assumes "occ ev = None" and "allowed_file file_filename"
    and "file_save s (os_path_join UPLOAD_FOLDER (secure_filename ev file_filename)) file_bytes
           = Inr s1"
  shows "upload_file ev s (Some (file_filename, file_bytes)) =
           (s1,
            UploadedJson (''/uploads/'' @ secure_filename ev file_filename)
              ''File uploaded. Note: pythonocc-core not installed. Install it for STP conversion.'',
            200) \<and>
         lookup s1 (os_path_join UPLOAD_FOLDER (secure_filename ev file_filename)) =
           Inr (File (clock s) file_bytes) \<and>
         (\<forall>names x.
            allowed_file (secure_filename ev file_filename) \<and>
            CHR ''/'' \<notin> set (secure_filename ev file_filename) \<and>
            os_path_exists s UPLOAD_FOLDER \<and>
            listing s UPLOAD_FOLDER = Inr names \<and>
            (\<forall>n \<in> set names.
               allowed_file n \<and> n \<noteq> secure_filename ev file_filename \<longrightarrow>
               (\<exists>nd y. lookup s (os_path_join UPLOAD_FOLDER n) = Inr nd \<and>
                  st_mtime nd < clock s \<and> isofmt (st_mtime nd) = Inr y)) \<and>
            isofmt (clock s) = Inr x \<longrightarrow>
            (\<exists>more. get_recent_uploads isofmt s1 =
               \<lparr>status = 200, error = None,
                files =
                  \<lparr>filename = secure_filename ev file_filename,
                   stl_file =
                     (if os_path_exists s1
                           (os_path_join ''static''
                              (spec_stem (secure_filename ev file_filename) @ ''.stl''))
                      then Some (''/static/'' @ spec_stem (secure_filename ev file_filename) @
                                 ''.stl'')
                      else None),
                   date = x, fsize = length file_bytes\<rparr> # more\<rparr>))"
proof -
  let ?n = "secure_filename ev file_filename"
  from assms(3) have s1: "s1 = fs_store s (os_path_join UPLOAD_FOLDER ?n) file_bytes"
    by (auto simp: file_save_def split: option.splits)
  then have 1: "lookup s1 (os_path_join UPLOAD_FOLDER ?n) = Inr (File (clock s) file_bytes)"
    by (simp add: lookup_fs_store)
  have 2: "\<exists>more. get_recent_uploads isofmt s1 =
               \<lparr>status = 200, error = None,
                files =
                  \<lparr>filename = ?n,
                   stl_file =
                     (if os_path_exists s1 (os_path_join ''static'' (spec_stem ?n @ ''.stl''))
                      then Some (''/static/'' @ spec_stem ?n @ ''.stl'') else None),
                   date = x, fsize = length file_bytes\<rparr> # more\<rparr>"
    if h: "allowed_file ?n \<and> CHR ''/'' \<notin> set ?n \<and> os_path_exists s UPLOAD_FOLDER \<and>
        listing s UPLOAD_FOLDER = Inr names \<and>
        (\<forall>n \<in> set names. allowed_file n \<and> n \<noteq> ?n \<longrightarrow>
           (\<exists>nd y. lookup s (os_path_join UPLOAD_FOLDER n) = Inr nd \<and>
              st_mtime nd < clock s \<and> isofmt (st_mtime nd) = Inr y)) \<and>
        isofmt (clock s) = Inr x"
    for names x
  proof (rule catalog_after_upload [where names = names])
    from h show "allowed_file ?n" by simp
    from h show "CHR ''/'' \<notin> set ?n" by simp
    from h show "os_path_exists s UPLOAD_FOLDER" by simp
    from h show "listing s UPLOAD_FOLDER = Inr names" by simp
    from h show "isofmt (clock s) = Inr x" by simp
    show "s1 = fs_store s (os_path_join UPLOAD_FOLDER ?n) file_bytes" by (rule s1)
    fix m
    assume "m \<in> set names" "allowed_file m" "m \<noteq> ?n"
    with h show "\<exists>nd y. lookup s (os_path_join UPLOAD_FOLDER m) = Inr nd \<and>
        st_mtime nd < clock s \<and> isofmt (st_mtime nd) = Inr y"
      by blast
  qed
  from assms have 0: "upload_file ev s (Some (file_filename, file_bytes)) =
           (s1,
            UploadedJson (''/uploads/'' @ ?n)
              ''File uploaded. Note: pythonocc-core not installed. Install it for STP conversion.'',
            200)"
    by (simp add: upload_file_degraded)
  from 0 1 2 show ?thesis by blast
qed

lemma sample_store_cube:
  "lookup (fs_store sample_fs ''uploads/cube.step'' ''data'') ''uploads/cube.step'' =
     Inr (File 1 ''data'')"
  "get_recent_uploads sample_iso (fs_store sample_fs ''uploads/cube.step'' ''data'') =
     \<lparr>status = 200, error = None,
      files = [\<lparr>filename = ''cube.step'', stl_file = None, date = ''T'', fsize = 4\<rparr>]\<rparr>"
  by (simp_all add: fs_store_def sample_fs_def add_name_def catalog_eval Let_def)

theorem degraded_upload_succeeds_witness:
  "occ (sample_env None) = None \<and> allowed_file ''cube.step'' \<and>
   upload_file (sample_env None) sample_fs (Some (''cube.step'', ''data'')) =
     (fs_store sample_fs ''uploads/cube.step'' ''data'',
      UploadedJson ''/uploads/cube.step''
        ''File uploaded. Note: pythonocc-core not installed. Install it for STP conversion.'',
      200) \<and>
   lookup (fs_store sample_fs ''uploads/cube.step'' ''data'') ''uploads/cube.step'' =
     Inr (File 1 ''data'') \<and>
   os_path_exists sample_fs UPLOAD_FOLDER \<and>
   listing sample_fs UPLOAD_FOLDER = Inr [] \<and>
   sample_iso (clock sample_fs) = Inr ''T'' \<and>
   (\<exists>more. get_recent_uploads sample_iso (fs_store sample_fs ''uploads/cube.step'' ''data'') =
      \<lparr>status = 200, error = None,
       files = \<lparr>filename = ''cube.step'', stl_file = None, date = ''T'', fsize = 4\<rparr> # more\<rparr>)"
proof -
  let ?s1 = "fs_store sample_fs ''uploads/cube.step'' ''data''"
  have o: "occ (sample_env None) = None" by (simp add: sample_env_sel)
  have a: "allowed_file ''cube.step''" by (rule sample_allowed)
  have s: "file_save sample_fs
      (os_path_join UPLOAD_FOLDER (secure_filename (sample_env None) ''cube.step'')) ''data'' =
      Inr ?s1"
    by (simp add: sample_fs_save sample_env_sel sample_names sample_paths)
  have c: "clock sample_fs = 1" by (simp add: sample_fs_def)
  have e: "os_path_exists sample_fs UPLOAD_FOLDER" "listing sample_fs UPLOAD_FOLDER = Inr []"
    "sample_iso (clock sample_fs) = Inr ''T''"
    by (simp_all add: sample_fs_def catalog_eval)
  have n: "\<not> os_path_exists ?s1 (os_path_join ''static'' (spec_stem ''cube.step'' @ ''.stl''))"
    by (simp add: sample_stems sample_paths fs_store_lookup os_path_exists_def sample_fs_def
        no_such_file_def)
  note inst = degraded_upload_succeeds [OF o a s, of sample_iso]
  from inst have 1: "upload_file (sample_env None) sample_fs (Some (''cube.step'', ''data'')) =
     (?s1,
      UploadedJson (''/uploads/'' @ secure_filename (sample_env None) ''cube.step'')
        ''File uploaded. Note: pythonocc-core not installed. Install it for STP conversion.'',
      200)"
    by (rule conjunct1)
  from inst have 2: "lookup ?s1
      (os_path_join UPLOAD_FOLDER (secure_filename (sample_env None) ''cube.step'')) =
      Inr (File (clock sample_fs) ''data'')"
    by (rule conjunct1 [OF conjunct2])
  have hyp: "allowed_file (secure_filename (sample_env None) ''cube.step'') \<and>
      CHR ''/'' \<notin> set (secure_filename (sample_env None) ''cube.step'') \<and>
      os_path_exists sample_fs UPLOAD_FOLDER \<and>
      listing sample_fs UPLOAD_FOLDER = Inr [] \<and>
      (\<forall>n \<in> set [].
         allowed_file n \<and> n \<noteq> secure_filename (sample_env None) ''cube.step'' \<longrightarrow>
         (\<exists>nd y. lookup sample_fs (os_path_join UPLOAD_FOLDER n) = Inr nd \<and>
            st_mtime nd < clock sample_fs \<and> sample_iso (st_mtime nd) = Inr y)) \<and>
      sample_iso (clock sample_fs) = Inr ''T''"
    using a e by (simp add: sample_env_sel sample_names)
  from inst [THEN conjunct2, THEN conjunct2, THEN spec, THEN spec, THEN mp, OF hyp]
  have 3: "\<exists>more. get_recent_uploads sample_iso ?s1 =
      \<lparr>status = 200, error = None,
       files =
         \<lparr>filename = secure_filename (sample_env None) ''cube.step'',
          stl_file =
            (if os_path_exists ?s1
                  (os_path_join ''static''
                     (spec_stem (secure_filename (sample_env None) ''cube.step'') @ ''.stl''))
             then Some (''/static/'' @
                        spec_stem (secure_filename (sample_env None) ''cube.step'') @ ''.stl'')
             else None),
          date = ''T'', fsize = length ''data''\<rparr> # more\<rparr>"
    by (simp only: simp_thms)
  have l: "length ''data'' = 4" by simp
  from 3 n have 4: "\<exists>more. get_recent_uploads sample_iso ?s1 =
      \<lparr>status = 200, error = None,
       files = \<lparr>filename = ''cube.step'', stl_file = None, date = ''T'', fsize = 4\<rparr> # more\<rparr>"
    unfolding l by (simp add: sample_env_sel sample_names)
  from 1 2 o a c e have "upload_file (sample_env None) sample_fs (Some (''cube.step'', ''data'')) =
     (?s1,
      UploadedJson ''/uploads/cube.step''
        ''File uploaded. Note: pythonocc-core not installed. Install it for STP conversion.'',
      200) \<and>
   lookup ?s1 ''uploads/cube.step'' = Inr (File 1 ''data'')"
    by (simp add: sample_env_sel sample_names sample_paths)
  with 4 o a e show ?thesis by blast
qed


text \<open>
  C5, as amended. When the kernel is present and the conversion of a stored upload fails
  (at the read, the empty-shape or the write step), the upload handler reports no derived
  asset: it answers 500 with an error body. The failed conversion leaves the file system
  as the upload left it, unless the failed write left a partial file at the output path,
  which then stays there. (Nothing removes such a file, so a later catalogue read finds
  it.)
\<close>

theorem failed_conversion_reports_no_asset:
  assumes "allowed_file file_filename"
    and "sname = secure_filename ev file_filename"
    and "file_save s (os_path_join UPLOAD_FOLDER sname) file_bytes = Inr s1"
    and "occ ev = Some b"
    and "convert_stp_to_stl (occ ev) s1 (os_path_join UPLOAD_FOLDER sname)
           (os_path_join ''static'' (spec_stem sname @ ''.stl'')) = (s2, Inl e)"
  shows "upload_file ev s (Some (file_filename, file_bytes)) =
           (s2, ErrorJson (''Error processing file: '' @ str e), 500) \<and>
         (s2 = s1 \<or>
          e = ValueError ''Failed to write STL file'' \<and>
          (\<exists>d. s2 = fs_store s1 (os_path_join ''static'' (spec_stem sname @ ''.stl'')) d))"
proof -
  from assms have "upload_file ev s (Some (file_filename, file_bytes)) =
      (s2, ErrorJson (''Error processing file: '' @ str e), 500)"
    by (simp add: upload_file_converts)
  moreover from convert_failure_file [OF assms(5)]
  have "s2 = s1 \<or>
          e = ValueError ''Failed to write STL file'' \<and>
          (\<exists>d. s2 = fs_store s1 (os_path_join ''static'' (spec_stem sname @ ''.stl'')) d)" .
  ultimately show ?thesis by simp
qed

lemma sample_convert_read_fails:
  "convert_stp_to_stl (Some (OCC, sample_kernel IFSelect_RetFail False (Written ''solid'')))
     (fs_store sample_fs ''uploads/cube.step'' ''data'') ''uploads/cube.step'' ''static/cube.stl'' =
     (fs_store sample_fs ''uploads/cube.step'' ''data'',
      Inl (ValueError ''Error reading STEP file. Status: IFSelect_ReturnStatus''))"
  by (simp add: convert_stp_to_stl_def sample_kernel_sel)

theorem failed_conversion_reports_no_asset_witness:
  "allowed_file ''cube.step'' \<and>
   upload_file (sample_env (Some (OCC, sample_kernel IFSelect_RetFail False (Written ''solid''))))
     sample_fs (Some (''cube.step'', ''data'')) =
     (fs_store sample_fs ''uploads/cube.step'' ''data'',
      ErrorJson ''Error processing file: Error reading STEP file. Status: IFSelect_ReturnStatus'',
      500)"
proof -
  let ?b = "(OCC, sample_kernel IFSelect_RetFail False (Written ''solid''))"
  have a: "allowed_file ''cube.step''" by (rule sample_allowed)
  have n: "''cube.step'' = secure_filename (sample_env (Some ?b)) ''cube.step''"
    by (simp add: sample_env_sel sample_names)
  have s: "file_save sample_fs (os_path_join UPLOAD_FOLDER ''cube.step'') ''data'' =
      Inr (fs_store sample_fs ''uploads/cube.step'' ''data'')"
    by (simp add: sample_fs_save sample_paths)
  have o: "occ (sample_env (Some ?b)) = Some ?b" by (simp add: sample_env_sel)
  have c: "convert_stp_to_stl (occ (sample_env (Some ?b)))
      (fs_store sample_fs ''uploads/cube.step'' ''data'')
      (os_path_join UPLOAD_FOLDER ''cube.step'')
      (os_path_join ''static'' (spec_stem ''cube.step'' @ ''.stl'')) =
      (fs_store sample_fs ''uploads/cube.step'' ''data'',
       Inl (ValueError ''Error reading STEP file. Status: IFSelect_ReturnStatus''))"
    by (simp add: sample_env_sel sample_paths sample_stems sample_convert_read_fails)
  from failed_conversion_reports_no_asset [OF a n s o c] a show ?thesis by simp
qed

text \<open>
  A conversion whose write fails after it has left a partial file: the handler answers
  500, the partial file stays in the results area, and the next catalogue read attaches
  its reference to the upload.
\<close>

theorem partial_mesh_counterexample:
  "\<not> os_path_exists sample_fs ''static/cube.stl'' \<and>
   upload_file
     (sample_env (Some (OCP, sample_kernel IFSelect_RetDone False (NotWritten (Some ''par'')))))
     sample_fs (Some (''cube.step'', ''data'')) =
     (fs_store (fs_store sample_fs ''uploads/cube.step'' ''data'') ''static/cube.stl'' ''par'',
      ErrorJson ''Error processing file: Failed to write STL file'', 500) \<and>
   lookup (fs_store (fs_store sample_fs ''uploads/cube.step'' ''data'') ''static/cube.stl'' ''par'')
     ''static/cube.stl'' = Inr (File 2 ''par'') \<and>
   get_recent_uploads sample_iso
     (fs_store (fs_store sample_fs ''uploads/cube.step'' ''data'') ''static/cube.stl'' ''par'') =
     \<lparr>status = 200, error = None,
      files = [\<lparr>filename = ''cube.step'', stl_file = Some ''/static/cube.stl'', date = ''T'',
                fsize = 4\<rparr>]\<rparr>"
  by (simp add: sample_upload_partial sample_store_partial)
    (simp add: os_path_exists_def sample_fs_def no_such_file_def)


text \<open>
  C10. The filename \<open>.stp\<close> passes the validation of the upload handler; the sanitiser turns
  it into \<open>stp\<close>, which has no extension; the upload is stored under that name and answered
  with success; the stored file is listed in the uploads directory, yet the catalogue of
  the resulting file system is empty, and no catalogue of any file system ever has an
  entry of that name.
\<close>

theorem sanitised_dotfile_not_listed:
  "allowed_file ''.stp'' \<and>
   werkzeug_secure_filename ''.stp'' = ''stp'' \<and>
   spec_extension ''stp'' = None \<and>
   \<not> allowed_file ''stp'' \<and>
   upload_file (sample_env None) sample_fs (Some (''.stp'', ''data'')) =
     (fs_store sample_fs ''uploads/stp'' ''data'',
      UploadedJson ''/uploads/stp''
        ''File uploaded. Note: pythonocc-core not installed. Install it for STP conversion.'',
      200) \<and>
   lookup (fs_store sample_fs ''uploads/stp'' ''data'') ''uploads/stp'' = Inr (File 1 ''data'') \<and>
   listing (fs_store sample_fs ''uploads/stp'' ''data'') ''uploads'' = Inr [''stp''] \<and>
   get_recent_uploads sample_iso (fs_store sample_fs ''uploads/stp'' ''data'') =
     \<lparr>status = 200, error = None, files = []\<rparr> \<and>
   (\<forall>isofmt s. ''stp'' \<notin> filename ` set (files (get_recent_uploads isofmt s)))"
proof -
  have "''stp'' \<notin> filename ` set (files (get_recent_uploads isofmt s))" for isofmt s
  proof
    assume "''stp'' \<in> filename ` set (files (get_recent_uploads isofmt s))"
    then obtain e where e: "e \<in> set (files (get_recent_uploads isofmt s))"
      and n: "filename e = ''stp''" by auto
    obtain es where r: "list_all2 (rendered isofmt) es (files (get_recent_uploads isofmt s))"
      and ok: "list_all (entry_ok s) es"
      using files_sources by blast
    from list_all2_right_source [OF r e] obtain e0 where e0: "e0 \<in> set es"
      and ee: "rendered isofmt e0 e"
      by blast
    from e0 ok have "allowed_file (filename e0)" by (simp add: list_all_iff entry_ok_def)
    with ee n have "allowed_file ''stp''" by (simp add: rendered_def)
    with sample_allowed(2) show False by simp
  qed
  then show ?thesis
    by (simp add: sample_allowed sample_names sample_upload_dotfile sample_store_dotfile
        spec_extension_def)
qed



section \<open>The file-serving handlers\<close>

lemma send_file_absent:
  assumes "\<not> os_path_exists s (os_path_join root_path p)"
  shows "\<exists>m. send_file root_path s p = Inl (OSError m)"
  using assms by (auto simp: send_file_def Let_def os_path_exists_def split: sum.splits)

lemma send_file_served:
  assumes "send_file root_path s p = Inr d"
  shows "\<exists>t. lookup s (os_path_join root_path p) = Inr (File t d)"
  using assms by (auto simp: send_file_def Let_def split: sum.splits node.splits)

lemma http_status_oserror: "http_status (Inl (OSError m)) = 500"
  by (simp add: http_status_def)

text \<open>
  C6, as amended. For every filename that names no file in the directory of the handler,
  the fetch-raw-upload and the fetch-derived-asset handler serve nothing: the error of
  the operating system leaves the handler uncaught, and the status is 500, not 404.
  Whatever a handler serves is the contents of the regular file at the path joined from
  its directory and the requested name, resolved against the root path of the
  application; for a name without a slash, as a URL segment is, the joined path is the
  directory, a slash and the name.
\<close>

theorem fetch_absent_file_fails:
  "(\<not> os_path_exists s (os_path_join root_path (os_path_join UPLOAD_FOLDER name)) \<longrightarrow>
      (\<exists>m. uploaded_file root_path s name = Inl (OSError m)) \<and>
      http_status (uploaded_file root_path s name) = 500) \<and>
   (\<not> os_path_exists s (os_path_join root_path (os_path_join ''static'' name)) \<longrightarrow>
      (\<exists>m. static_file root_path s name = Inl (OSError m)) \<and>
      http_status (static_file root_path s name) = 500) \<and>
   (\<forall>d. uploaded_file root_path s name = Inr d \<longrightarrow>
      (\<exists>t. lookup s (os_path_join root_path (os_path_join UPLOAD_FOLDER name)) =
         Inr (File t d))) \<and>
   (\<forall>d. static_file root_path s name = Inr d \<longrightarrow>
      (\<exists>t. lookup s (os_path_join root_path (os_path_join ''static'' name)) =
         Inr (File t d))) \<and>
   (CHR ''/'' \<notin> set name \<longrightarrow>
      os_path_join UPLOAD_FOLDER name = ''uploads/'' @ name \<and>
      os_path_join ''static'' name = ''static/'' @ name)"
proof -
  have 1: "(\<exists>m. uploaded_file root_path s name = Inl (OSError m)) \<and>
      http_status (uploaded_file root_path s name) = 500"
    if "\<not> os_path_exists s (os_path_join root_path (os_path_join UPLOAD_FOLDER name))"
    using send_file_absent [OF that] by (auto simp: uploaded_file_def http_status_oserror)
  have 2: "(\<exists>m. static_file root_path s name = Inl (OSError m)) \<and>
      http_status (static_file root_path s name) = 500"
    if "\<not> os_path_exists s (os_path_join root_path (os_path_join ''static'' name))"
    using send_file_absent [OF that] by (auto simp: static_file_def http_status_oserror)
  have 3: "\<exists>t. lookup s (os_path_join root_path (os_path_join UPLOAD_FOLDER name)) =
      Inr (File t d)"
    if "uploaded_file root_path s name = Inr d" for d
    using that by (simp add: uploaded_file_def send_file_served)
  have 4: "\<exists>t. lookup s (os_path_join root_path (os_path_join ''static'' name)) =
      Inr (File t d)"
    if "static_file root_path s name = Inr d" for d
    using that by (simp add: static_file_def send_file_served)
  have 5: "os_path_join UPLOAD_FOLDER name = ''uploads/'' @ name \<and>
      os_path_join ''static'' name = ''static/'' @ name"
    if "CHR ''/'' \<notin> set name"
    using os_path_join_plain [OF that, of "''uploads''"] os_path_join_plain [OF that, of "''static''"]
    by (simp add: UPLOAD_FOLDER_def)
  from 1 2 3 4 5 show ?thesis by blast
qed

lemmas serve_eval =
  uploaded_file_def static_file_def send_file_def os_path_join_def UPLOAD_FOLDER_def
  app_root_def rooted_def from_cwd_def os_path_exists_def no_such_file_def Let_def

theorem fetch_absent_file_fails_witness:
  "\<not> os_path_exists (rooted app_root busy_fs)
      (os_path_join app_root (os_path_join UPLOAD_FOLDER ''gone.stp'')) \<and>
   http_status (uploaded_file app_root (rooted app_root busy_fs) ''gone.stp'') = 500 \<and>
   \<not> os_path_exists (rooted app_root busy_fs)
      (os_path_join app_root (os_path_join ''static'' ''d.stl'')) \<and>
   http_status (static_file app_root (rooted app_root busy_fs) ''d.stl'') = 500 \<and>
   uploaded_file app_root (rooted app_root busy_fs) ''c.STP'' = Inr ''CCC'' \<and>
   lookup (rooted app_root busy_fs) ''/srv/app/uploads/c.STP'' = Inr (File 30 ''CCC'') \<and>
   static_file app_root (rooted app_root busy_fs) ''e.stl'' = Inr ''e'' \<and>
   lookup (rooted app_root busy_fs) ''/srv/app/static/e.stl'' = Inr (File 51 ''e'')"
proof -
  let ?s = "rooted app_root busy_fs"
  have a: "\<not> os_path_exists ?s (os_path_join app_root (os_path_join UPLOAD_FOLDER ''gone.stp''))"
    "\<not> os_path_exists ?s (os_path_join app_root (os_path_join ''static'' ''d.stl''))"
    by (simp_all add: serve_eval busy_fs_def)
  have b: "uploaded_file app_root ?s ''c.STP'' = Inr ''CCC''"
    "static_file app_root ?s ''e.stl'' = Inr ''e''"
    by (simp_all add: serve_eval busy_fs_def)
  have c: "lookup ?s ''/srv/app/uploads/c.STP'' = Inr (File 30 ''CCC'')"
    "lookup ?s ''/srv/app/static/e.stl'' = Inr (File 51 ''e'')"
    by (simp_all add: serve_eval busy_fs_def)
  from fetch_absent_file_fails [of ?s app_root "''gone.stp''"]
    fetch_absent_file_fails [of ?s app_root "''d.stl''"] a b c
  show ?thesis by simp
qed

text \<open>
  A request for a name that is absent from the uploads directory, and one for a name that
  is absent from the results area: each handler ends with the error of the operating
  system, and the status is 500.
\<close>

theorem fetch_absent_file_counterexample:
  "\<not> os_path_exists (rooted app_root sample_fs)
      (os_path_join app_root (os_path_join UPLOAD_FOLDER ''missing.stp'')) \<and>
   \<not> os_path_exists (rooted app_root sample_fs) (os_path_join UPLOAD_FOLDER ''missing.stp'') \<and>
   uploaded_file app_root (rooted app_root sample_fs) ''missing.stp'' =
     Inl (OSError ''[Errno 2] No such file or directory: uploads/missing.stp'') \<and>
   http_status (uploaded_file app_root (rooted app_root sample_fs) ''missing.stp'') = 500 \<and>
   http_status (uploaded_file app_root (rooted app_root sample_fs) ''missing.stp'') \<noteq> 404 \<and>
   \<not> os_path_exists (rooted app_root sample_fs)
      (os_path_join app_root (os_path_join ''static'' ''missing.stl'')) \<and>
   \<not> os_path_exists (rooted app_root sample_fs) (os_path_join ''static'' ''missing.stl'') \<and>
   static_file app_root (rooted app_root sample_fs) ''missing.stl'' =
     Inl (OSError ''[Errno 2] No such file or directory: static/missing.stl'') \<and>
   http_status (static_file app_root (rooted app_root sample_fs) ''missing.stl'') = 500 \<and>
   http_status (static_file app_root (rooted app_root sample_fs) ''missing.stl'') \<noteq> 404"
  by (simp add: serve_eval sample_fs_def http_status_def)


end
